theory Spec2Isabelle
  imports Main "HOL-Library.Sublist" "HOL-Library.Finite_Map"
begin


section \<open>Configuration model\<close>

text \<open>
  The configuration tree is declared in package \<open>conf\<close>; the supervisor in
  \<open>core.go\<close> only reads its fields. The records below carry exactly the fields that
  \<open>core.go\<close> and the WebRTC server read, with the Go types rendered as follows:
  \<open>string\<close> as \<open>string\<close>, \<open>bool\<close> as \<open>bool\<close>, \<open>int\<close> and durations as \<open>int\<close>,
  a slice as \<open>'a list option\<close>, a map to \<open>struct{}\<close> as an optional set of keys and
  any other map as an optional finite map, where
  \<open>None\<close> is Go's \<open>nil\<close>. On such values \<open>reflect.DeepEqual\<close> is structural
  equality (it tells a nil slice or map from an empty one, and follows pointers), so
  \<open>!reflect.DeepEqual(a, b)\<close> is rendered as \<open>a \<noteq> b\<close>.
\<close>

type_synonym 'a slice = "'a list option"

datatype Encryption = EncryptionNo | EncryptionOptional | EncryptionStrict

datatype Protocol = TransportUDP | TransportUDPMulticast | TransportTCP

datatype AuthMethod = AuthBasic | AuthDigest

datatype HLSVariant = HLSVariantMPEGTS | HLSVariantFMP4 | HLSVariantLowLatency

datatype LogDestination = DestinationStdout | DestinationFile | DestinationSyslog

datatype Level = Debug | Info | Warn | Error

record PathConf =
  Source :: string
  ReadUser :: string
  ReadPass :: string
  ReadIPs :: "string slice"

type_synonym Paths = "(string, PathConf) fmap option"

record Conf =
  LogLevel :: Level
  LogDestinations :: "LogDestination set option"
  LogFile :: string
  ReadTimeout :: int
  WriteTimeout :: int
  ReadBufferCount :: int
  ExternalAuthenticationURL :: string
  API :: bool
  APIAddress :: string
  Metrics :: bool
  MetricsAddress :: string
  PPROF :: bool
  PPROFAddress :: string
  RunOnConnect :: string
  RunOnConnectRestart :: bool
  RTSPDisable :: bool
  Protocols :: "Protocol set option"
  Encryption :: Encryption
  RTSPAddress :: string
  RTSPSAddress :: string
  RTPAddress :: string
  RTCPAddress :: string
  MulticastIPRange :: string
  MulticastRTPPort :: int
  MulticastRTCPPort :: int
  ServerKey :: string
  ServerCert :: string
  AuthMethods :: "AuthMethod slice"
  RTMPDisable :: bool
  RTMPAddress :: string
  RTMPEncryption :: Encryption
  RTMPSAddress :: string
  RTMPServerKey :: string
  RTMPServerCert :: string
  HLSDisable :: bool
  HLSAddress :: string
  HLSEncryption :: bool
  HLSServerKey :: string
  HLSServerCert :: string
  HLSAlwaysRemux :: bool
  HLSVariant :: HLSVariant
  HLSSegmentCount :: int
  HLSSegmentDuration :: int
  HLSPartDuration :: int
  HLSSegmentMaxSize :: int
  HLSAllowOrigin :: string
  HLSTrustedProxies :: "string slice"
  HLSDirectory :: string
  WebRTCDisable :: bool
  WebRTCAddress :: string
  WebRTCEncryption :: bool
  WebRTCServerKey :: string
  WebRTCServerCert :: string
  WebRTCAllowOrigin :: string
  WebRTCTrustedProxies :: "string slice"
  WebRTCICEServers :: "string slice"
  WebRTCICEHostNAT1To1IPs :: "string slice"
  WebRTCICEUDPMuxAddress :: string
  WebRTCICETCPMuxAddress :: string
  Paths :: Paths

section \<open>Restart decisions of \<open>closeResources\<close>\<close>

text \<open>
  \<open>closeResources(newConf, calledByAPI)\<close> first computes one boolean per subsystem
  from the new configuration (\<open>None\<close> is \<open>newConf == nil\<close>, the final tear-down) and
  the running configuration \<open>p.conf\<close>. Each definition below is the disjunction of
  the source, disjunct by disjunct and in the source's order.
\<close>

definition closeLogger :: "Conf option \<Rightarrow> Conf \<Rightarrow> bool" where
  "closeLogger newConf conf = (case newConf of None \<Rightarrow> True | Some n \<Rightarrow>
     LogDestinations n \<noteq> LogDestinations conf \<or>
     LogFile n \<noteq> LogFile conf)"

definition closeMetrics :: "Conf option \<Rightarrow> Conf \<Rightarrow> bool" where
  "closeMetrics newConf conf = (case newConf of None \<Rightarrow> True | Some n \<Rightarrow>
     Metrics n \<noteq> Metrics conf \<or>
     MetricsAddress n \<noteq> MetricsAddress conf)"

definition closePPROF :: "Conf option \<Rightarrow> Conf \<Rightarrow> bool" where
  "closePPROF newConf conf = (case newConf of None \<Rightarrow> True | Some n \<Rightarrow>
     PPROF n \<noteq> PPROF conf \<or>
     PPROFAddress n \<noteq> PPROFAddress conf)"

definition closePathManager :: "Conf option \<Rightarrow> Conf \<Rightarrow> bool" where
  "closePathManager newConf conf = (case newConf of None \<Rightarrow> True | Some n \<Rightarrow>
     RTSPAddress n \<noteq> RTSPAddress conf \<or>
     ReadTimeout n \<noteq> ReadTimeout conf \<or>
     WriteTimeout n \<noteq> WriteTimeout conf \<or>
     ReadBufferCount n \<noteq> ReadBufferCount conf \<or>
     closeMetrics newConf conf)"

definition closeRTSPServer :: "Conf option \<Rightarrow> Conf \<Rightarrow> bool" where
  "closeRTSPServer newConf conf = (case newConf of None \<Rightarrow> True | Some n \<Rightarrow>
     RTSPDisable n \<noteq> RTSPDisable conf \<or>
     Encryption n \<noteq> Encryption conf \<or>
     ExternalAuthenticationURL n \<noteq> ExternalAuthenticationURL conf \<or>
     RTSPAddress n \<noteq> RTSPAddress conf \<or>
     AuthMethods n \<noteq> AuthMethods conf \<or>
     ReadTimeout n \<noteq> ReadTimeout conf \<or>
     WriteTimeout n \<noteq> WriteTimeout conf \<or>
     ReadBufferCount n \<noteq> ReadBufferCount conf \<or>
     Protocols n \<noteq> Protocols conf \<or>
     RTPAddress n \<noteq> RTPAddress conf \<or>
     RTCPAddress n \<noteq> RTCPAddress conf \<or>
     MulticastIPRange n \<noteq> MulticastIPRange conf \<or>
     MulticastRTPPort n \<noteq> MulticastRTPPort conf \<or>
     MulticastRTCPPort n \<noteq> MulticastRTCPPort conf \<or>
     RTSPAddress n \<noteq> RTSPAddress conf \<or>
     Protocols n \<noteq> Protocols conf \<or>
     RunOnConnect n \<noteq> RunOnConnect conf \<or>
     RunOnConnectRestart n \<noteq> RunOnConnectRestart conf \<or>
     closeMetrics newConf conf \<or>
     closePathManager newConf conf)"

definition closeRTSPSServer :: "Conf option \<Rightarrow> Conf \<Rightarrow> bool" where
  "closeRTSPSServer newConf conf = (case newConf of None \<Rightarrow> True | Some n \<Rightarrow>
     RTSPDisable n \<noteq> RTSPDisable conf \<or>
     Encryption n \<noteq> Encryption conf \<or>
     ExternalAuthenticationURL n \<noteq> ExternalAuthenticationURL conf \<or>
     RTSPSAddress n \<noteq> RTSPSAddress conf \<or>
     AuthMethods n \<noteq> AuthMethods conf \<or>
     ReadTimeout n \<noteq> ReadTimeout conf \<or>
     WriteTimeout n \<noteq> WriteTimeout conf \<or>
     ReadBufferCount n \<noteq> ReadBufferCount conf \<or>
     ServerCert n \<noteq> ServerCert conf \<or>
     ServerKey n \<noteq> ServerKey conf \<or>
     RTSPAddress n \<noteq> RTSPAddress conf \<or>
     Protocols n \<noteq> Protocols conf \<or>
     RunOnConnect n \<noteq> RunOnConnect conf \<or>
     RunOnConnectRestart n \<noteq> RunOnConnectRestart conf \<or>
     closeMetrics newConf conf \<or>
     closePathManager newConf conf)"

definition closeRTMPServer :: "Conf option \<Rightarrow> Conf \<Rightarrow> bool" where
  "closeRTMPServer newConf conf = (case newConf of None \<Rightarrow> True | Some n \<Rightarrow>
     RTMPDisable n \<noteq> RTMPDisable conf \<or>
     RTMPEncryption n \<noteq> RTMPEncryption conf \<or>
     RTMPAddress n \<noteq> RTMPAddress conf \<or>
     ExternalAuthenticationURL n \<noteq> ExternalAuthenticationURL conf \<or>
     ReadTimeout n \<noteq> ReadTimeout conf \<or>
     WriteTimeout n \<noteq> WriteTimeout conf \<or>
     ReadBufferCount n \<noteq> ReadBufferCount conf \<or>
     RTSPAddress n \<noteq> RTSPAddress conf \<or>
     RunOnConnect n \<noteq> RunOnConnect conf \<or>
     RunOnConnectRestart n \<noteq> RunOnConnectRestart conf \<or>
     closeMetrics newConf conf \<or>
     closePathManager newConf conf)"

definition closeRTMPSServer :: "Conf option \<Rightarrow> Conf \<Rightarrow> bool" where
  "closeRTMPSServer newConf conf = (case newConf of None \<Rightarrow> True | Some n \<Rightarrow>
     RTMPDisable n \<noteq> RTMPDisable conf \<or>
     RTMPEncryption n \<noteq> RTMPEncryption conf \<or>
     RTMPSAddress n \<noteq> RTMPSAddress conf \<or>
     ExternalAuthenticationURL n \<noteq> ExternalAuthenticationURL conf \<or>
     ReadTimeout n \<noteq> ReadTimeout conf \<or>
     WriteTimeout n \<noteq> WriteTimeout conf \<or>
     ReadBufferCount n \<noteq> ReadBufferCount conf \<or>
     RTMPServerCert n \<noteq> RTMPServerCert conf \<or>
     RTMPServerKey n \<noteq> RTMPServerKey conf \<or>
     RTSPAddress n \<noteq> RTSPAddress conf \<or>
     RunOnConnect n \<noteq> RunOnConnect conf \<or>
     RunOnConnectRestart n \<noteq> RunOnConnectRestart conf \<or>
     closeMetrics newConf conf \<or>
     closePathManager newConf conf)"

definition closeHLSServer :: "Conf option \<Rightarrow> Conf \<Rightarrow> bool" where
  "closeHLSServer newConf conf = (case newConf of None \<Rightarrow> True | Some n \<Rightarrow>
     HLSDisable n \<noteq> HLSDisable conf \<or>
     HLSAddress n \<noteq> HLSAddress conf \<or>
     HLSEncryption n \<noteq> HLSEncryption conf \<or>
     HLSServerKey n \<noteq> HLSServerKey conf \<or>
     HLSServerCert n \<noteq> HLSServerCert conf \<or>
     ExternalAuthenticationURL n \<noteq> ExternalAuthenticationURL conf \<or>
     HLSAlwaysRemux n \<noteq> HLSAlwaysRemux conf \<or>
     HLSVariant n \<noteq> HLSVariant conf \<or>
     HLSSegmentCount n \<noteq> HLSSegmentCount conf \<or>
     HLSSegmentDuration n \<noteq> HLSSegmentDuration conf \<or>
     HLSPartDuration n \<noteq> HLSPartDuration conf \<or>
     HLSSegmentMaxSize n \<noteq> HLSSegmentMaxSize conf \<or>
     HLSAllowOrigin n \<noteq> HLSAllowOrigin conf \<or>
     HLSTrustedProxies n \<noteq> HLSTrustedProxies conf \<or>
     HLSDirectory n \<noteq> HLSDirectory conf \<or>
     ReadBufferCount n \<noteq> ReadBufferCount conf \<or>
     closePathManager newConf conf \<or>
     closeMetrics newConf conf)"

definition closeWebRTCServer :: "Conf option \<Rightarrow> Conf \<Rightarrow> bool" where
  "closeWebRTCServer newConf conf = (case newConf of None \<Rightarrow> True | Some n \<Rightarrow>
     WebRTCDisable n \<noteq> WebRTCDisable conf \<or>
     ExternalAuthenticationURL n \<noteq> ExternalAuthenticationURL conf \<or>
     WebRTCAddress n \<noteq> WebRTCAddress conf \<or>
     WebRTCEncryption n \<noteq> WebRTCEncryption conf \<or>
     WebRTCServerKey n \<noteq> WebRTCServerKey conf \<or>
     WebRTCServerCert n \<noteq> WebRTCServerCert conf \<or>
     WebRTCAllowOrigin n \<noteq> WebRTCAllowOrigin conf \<or>
     WebRTCTrustedProxies n \<noteq> WebRTCTrustedProxies conf \<or>
     WebRTCICEServers n \<noteq> WebRTCICEServers conf \<or>
     ReadBufferCount n \<noteq> ReadBufferCount conf \<or>
     closeMetrics newConf conf \<or>
     closePathManager newConf conf \<or>
     WebRTCICEHostNAT1To1IPs n \<noteq> WebRTCICEHostNAT1To1IPs conf \<or>
     WebRTCICEUDPMuxAddress n \<noteq> WebRTCICEUDPMuxAddress conf \<or>
     WebRTCICETCPMuxAddress n \<noteq> WebRTCICETCPMuxAddress conf)"

definition closeAPI :: "Conf option \<Rightarrow> Conf \<Rightarrow> bool" where
  "closeAPI newConf conf = (case newConf of None \<Rightarrow> True | Some n \<Rightarrow>
     API n \<noteq> API conf \<or>
     APIAddress n \<noteq> APIAddress conf \<or>
     closePathManager newConf conf \<or>
     closeRTSPServer newConf conf \<or>
     closeRTSPSServer newConf conf \<or>
     closeRTMPServer newConf conf \<or>
     closeHLSServer newConf conf \<or>
     closeWebRTCServer newConf conf)"

section \<open>The supervisor \<open>Core\<close>\<close>

text \<open>
  \<open>Core\<close> holds one nilable pointer per subsystem. A pointer is modelled as an
  optional handle (\<open>None\<close> is \<open>nil\<close>); handles are drawn from the counter
  \<open>fresh\<close>, so that a subsystem that was closed and built again has a new handle
  while one that was left running keeps its own. Every call that leaves the supervisor
  (a constructor, \<open>close\<close>, \<open>confReload\<close>, a log line, a print) is appended to
  \<open>events\<close> in program order.
\<close>

datatype Subsystem =
    LoggerS | ExternalCmdPoolS | MetricsS | PPROFS | PathManagerS
  | RTSPServerS | RTSPSServerS | RTMPServerS | RTMPSServerS
  | HLSServerS | WebRTCServerS | APIS | ConfWatcherS

datatype Event =
    Created Subsystem nat
  | Closed Subsystem nat
  | PathManagerConfReload nat Paths
  | APIConfReload nat "Conf option"
  | Logged Level string
  | Printed string
  | RlimitRaise
  | GinSetMode
  | RpiCameraCleanup

record Core =
  confPath :: string
  conf :: Conf
  confFound :: bool
  logger :: "nat option"
  externalCmdPool :: "nat option"
  metrics :: "nat option"
  pprof :: "nat option"
  pathManager :: "nat option"
  rtspServer :: "nat option"
  rtspsServer :: "nat option"
  rtmpServer :: "nat option"
  rtmpsServer :: "nat option"
  hlsServer :: "nat option"
  webRTCServer :: "nat option"
  api :: "nat option"
  confWatcher :: "nat option"
  events :: "Event list"
  fresh :: nat

text \<open>
  A step of the supervisor either completes, returns an error (the \<open>err != nil\<close>
  returns of \<open>createResources\<close>), or dereferences a nil pointer. The methods of
  \<open>Logger\<close> and \<open>pathManager\<close> are taken to read their receiver, so calling
  them through a nil pointer panics.
\<close>

datatype Status = Done | Failed string | Panicked

fun runSteps :: "(Core \<Rightarrow> Core \<times> Status) list \<Rightarrow> Core \<Rightarrow> Core \<times> Status" where
  "runSteps [] p = (p, Done)"
| "runSteps (f # fs) p =
     (case f p of
        (p', Done) \<Rightarrow> runSteps fs p'
      | (p', st) \<Rightarrow> (p', st))"

definition emit :: "Event \<Rightarrow> Core \<Rightarrow> Core" where
  "emit e p = p\<lparr>events := events p @ [e]\<rparr>"

fun getSub :: "Subsystem \<Rightarrow> Core \<Rightarrow> nat option" where
  "getSub LoggerS p = logger p"
| "getSub ExternalCmdPoolS p = externalCmdPool p"
| "getSub MetricsS p = metrics p"
| "getSub PPROFS p = pprof p"
| "getSub PathManagerS p = pathManager p"
| "getSub RTSPServerS p = rtspServer p"
| "getSub RTSPSServerS p = rtspsServer p"
| "getSub RTMPServerS p = rtmpServer p"
| "getSub RTMPSServerS p = rtmpsServer p"
| "getSub HLSServerS p = hlsServer p"
| "getSub WebRTCServerS p = webRTCServer p"
| "getSub APIS p = api p"
| "getSub ConfWatcherS p = confWatcher p"

fun setSub :: "Subsystem \<Rightarrow> nat option \<Rightarrow> Core \<Rightarrow> Core" where
  "setSub LoggerS h p = p\<lparr>logger := h\<rparr>"
| "setSub ExternalCmdPoolS h p = p\<lparr>externalCmdPool := h\<rparr>"
| "setSub MetricsS h p = p\<lparr>metrics := h\<rparr>"
| "setSub PPROFS h p = p\<lparr>pprof := h\<rparr>"
| "setSub PathManagerS h p = p\<lparr>pathManager := h\<rparr>"
| "setSub RTSPServerS h p = p\<lparr>rtspServer := h\<rparr>"
| "setSub RTSPSServerS h p = p\<lparr>rtspsServer := h\<rparr>"
| "setSub RTMPServerS h p = p\<lparr>rtmpServer := h\<rparr>"
| "setSub RTMPSServerS h p = p\<lparr>rtmpsServer := h\<rparr>"
| "setSub HLSServerS h p = p\<lparr>hlsServer := h\<rparr>"
| "setSub WebRTCServerS h p = p\<lparr>webRTCServer := h\<rparr>"
| "setSub APIS h p = p\<lparr>api := h\<rparr>"
| "setSub ConfWatcherS h p = p\<lparr>confWatcher := h\<rparr>"

text \<open>\<open>p.Log(level, ...)\<close> is \<open>p.logger.Log(level, ...)\<close>.\<close>

definition Log :: "Level \<Rightarrow> string \<Rightarrow> Core \<Rightarrow> Core \<times> Status" where
  "Log lvl msg p =
     (case logger p of
        None \<Rightarrow> (p, Panicked)
      | Some l \<Rightarrow> (emit (Logged lvl msg) p, Done))"

text \<open>
  \<open>p.x, err = newX(...)\<close>: the constructor either fails with the error that
  \<open>newErr\<close> gives for it (the field stays nil) or returns a new object.
  \<open>assignNew\<close> is the constructor that has no error result.
\<close>

definition assignNew :: "Subsystem \<Rightarrow> Core \<Rightarrow> Core \<times> Status" where
  "assignNew k p =
     (setSub k (Some (fresh p)) ((emit (Created k (fresh p)) p)\<lparr>fresh := Suc (fresh p)\<rparr>), Done)"

definition tryNew :: "(Subsystem \<Rightarrow> string option) \<Rightarrow> Subsystem \<Rightarrow> Core \<Rightarrow> Core \<times> Status" where
  "tryNew newErr k p =
     (case newErr k of
        Some e \<Rightarrow> (setSub k None p, Failed e)
      | None \<Rightarrow> assignNew k p)"

text \<open>\<open>if enabled { if p.x == nil { p.x, err = newX(...); if err != nil { return err } } }\<close>\<close>

definition ensure :: "(Subsystem \<Rightarrow> string option) \<Rightarrow> bool \<Rightarrow> Subsystem \<Rightarrow> Core \<Rightarrow> Core \<times> Status" where
  "ensure newErr enabled k p =
     (if enabled then
        (if getSub k p = None then tryNew newErr k p else (p, Done))
      else (p, Done))"

definition version :: string where
  "version = ''v0.0.0''"

definition createInitial :: "bool \<Rightarrow> Core \<Rightarrow> Core \<times> Status" where
  "createInitial initial p =
     (if initial then
        runSteps
          [Log Info (''MediaMTX / rtsp-simple-server '' @ version),
           (\<lambda>p. if \<not> confFound p
                 then Log Warn ''configuration file not found, using an empty configuration'' p
                 else (p, Done)),
           (\<lambda>p. (emit RlimitRaise p, Done)),
           (\<lambda>p. (emit GinSetMode p, Done)),
           assignNew ExternalCmdPoolS] p
      else (p, Done))"

definition createResources :: "(Subsystem \<Rightarrow> string option) \<Rightarrow> bool \<Rightarrow> Core \<Rightarrow> Core \<times> Status" where
  "createResources newErr initial =
     runSteps
       [(\<lambda>p. if logger p = None then tryNew newErr LoggerS p else (p, Done)),
        createInitial initial,
        (\<lambda>p. ensure newErr (Metrics (conf p)) MetricsS p),
        (\<lambda>p. ensure newErr (PPROF (conf p)) PPROFS p),
        (\<lambda>p. if pathManager p = None then assignNew PathManagerS p else (p, Done)),
        (\<lambda>p. ensure newErr
               (\<not> RTSPDisable (conf p) \<and>
                (Encryption (conf p) = EncryptionNo \<or> Encryption (conf p) = EncryptionOptional))
               RTSPServerS p),
        (\<lambda>p. ensure newErr
               (\<not> RTSPDisable (conf p) \<and>
                (Encryption (conf p) = EncryptionStrict \<or> Encryption (conf p) = EncryptionOptional))
               RTSPSServerS p),
        (\<lambda>p. ensure newErr
               (\<not> RTMPDisable (conf p) \<and>
                (RTMPEncryption (conf p) = EncryptionNo \<or> RTMPEncryption (conf p) = EncryptionOptional))
               RTMPServerS p),
        (\<lambda>p. ensure newErr
               (\<not> RTMPDisable (conf p) \<and>
                (RTMPEncryption (conf p) = EncryptionStrict \<or> RTMPEncryption (conf p) = EncryptionOptional))
               RTMPSServerS p),
        (\<lambda>p. ensure newErr (\<not> HLSDisable (conf p)) HLSServerS p),
        (\<lambda>p. ensure newErr (\<not> WebRTCDisable (conf p)) WebRTCServerS p),
        (\<lambda>p. ensure newErr (API (conf p)) APIS p),
        (\<lambda>p. if initial \<and> confFound p then tryNew newErr ConfWatcherS p else (p, Done))]"

text \<open>\<open>if closeX && p.x != nil { p.x.close(); p.x = nil }\<close>\<close>

definition closeSub :: "bool \<Rightarrow> Subsystem \<Rightarrow> Core \<Rightarrow> Core \<times> Status" where
  "closeSub must k p =
     (case getSub k p of
        Some h \<Rightarrow> if must then (setSub k None (emit (Closed k h) p), Done) else (p, Done)
      | None \<Rightarrow> (p, Done))"

definition reloadPaths :: "Conf option \<Rightarrow> Core \<Rightarrow> Core \<times> Status" where
  "reloadPaths newConf p =
     (case newConf of
        None \<Rightarrow> (p, Done)
      | Some n \<Rightarrow>
          if \<not> closePathManager newConf (conf p) \<and> Paths n \<noteq> Paths (conf p) then
            (case pathManager p of
               None \<Rightarrow> (p, Panicked)
             | Some pm \<Rightarrow> (emit (PathManagerConfReload pm (Paths n)) p, Done))
          else (p, Done))"

definition closeOrReloadAPI :: "Conf option \<Rightarrow> bool \<Rightarrow> bool \<Rightarrow> Core \<Rightarrow> Core \<times> Status" where
  "closeOrReloadAPI newConf calledByAPI must p =
     (case api p of
        None \<Rightarrow> (p, Done)
      | Some a \<Rightarrow>
          if must then (setSub APIS None (emit (Closed APIS a) p), Done)
          else if \<not> calledByAPI then (emit (APIConfReload a newConf) p, Done)
          else (p, Done))"

definition closeExternalCmdPool :: "Conf option \<Rightarrow> Core \<Rightarrow> Core \<times> Status" where
  "closeExternalCmdPool newConf p =
     (case externalCmdPool p of
        None \<Rightarrow> (p, Done)
      | Some e \<Rightarrow>
          if newConf = None then
            runSteps
              [Log Info ''waiting for external commands'',
               (\<lambda>p. (emit (Closed ExternalCmdPoolS e) p, Done))] p
          else (p, Done))"

definition closeTheLogger :: "bool \<Rightarrow> Core \<Rightarrow> Core \<times> Status" where
  "closeTheLogger must p =
     (if must then
        (case logger p of
           None \<Rightarrow> (p, Panicked)
         | Some l \<Rightarrow> (setSub LoggerS None (emit (Closed LoggerS l) p), Done))
      else (p, Done))"

definition closeResources :: "Conf option \<Rightarrow> bool \<Rightarrow> Core \<Rightarrow> Core \<times> Status" where
  "closeResources newConf calledByAPI p =
     runSteps
       [reloadPaths newConf,
        closeSub (newConf = None) ConfWatcherS,
        closeOrReloadAPI newConf calledByAPI (closeAPI newConf (conf p)),
        closeSub (closeRTSPSServer newConf (conf p)) RTSPSServerS,
        closeSub (closeRTSPServer newConf (conf p)) RTSPServerS,
        closeSub (closePathManager newConf (conf p)) PathManagerS,
        closeSub (closeWebRTCServer newConf (conf p)) WebRTCServerS,
        closeSub (closeHLSServer newConf (conf p)) HLSServerS,
        closeSub (closeRTMPSServer newConf (conf p)) RTMPSServerS,
        closeSub (closeRTMPServer newConf (conf p)) RTMPServerS,
        closeSub (closePPROF newConf (conf p)) PPROFS,
        closeSub (closeMetrics newConf (conf p)) MetricsS,
        closeExternalCmdPool newConf,
        (\<lambda>p. if newConf = None then (emit RpiCameraCleanup p, Done) else (p, Done)),
        closeTheLogger (closeLogger newConf (conf p))] p"

definition reloadConf :: "(Subsystem \<Rightarrow> string option) \<Rightarrow> Conf \<Rightarrow> bool \<Rightarrow> Core \<Rightarrow> Core \<times> Status" where
  "reloadConf newErr newConf calledByAPI =
     runSteps
       [closeResources (Some newConf) calledByAPI,
        (\<lambda>p. (p\<lparr>conf := newConf\<rparr>, Done)),
        createResources newErr False]"

text \<open>The events a run appended to the trace.\<close>

definition since :: "Core \<Rightarrow> Core \<Rightarrow> Event list" where
  "since p p' = drop (length (events p)) (events p')"

section \<open>Start-up: \<open>New\<close>\<close>







text \<open>\<open>&Core{...}\<close> followed by the assignment of \<open>conf.Load\<close>'s results.\<close>

definition blankCore :: "string \<Rightarrow> Conf \<Rightarrow> bool \<Rightarrow> Core" where
  "blankCore path c found = \<lparr>
     confPath = path, conf = c, confFound = found,
     logger = None, externalCmdPool = None, metrics = None, pprof = None, pathManager = None,
     rtspServer = None, rtspsServer = None, rtmpServer = None, rtmpsServer = None,
     hlsServer = None, webRTCServer = None, api = None, confWatcher = None,
     events = [], fresh = 0 \<rparr>"




section \<open>Reading the trace\<close>







text \<open>The events that concern one subsystem.\<close>

fun touches :: "Subsystem \<Rightarrow> Event \<Rightarrow> bool" where
  "touches k (Created k' h) = (k' = k)"
| "touches k (Closed k' h) = (k' = k)"
| "touches k (PathManagerConfReload h ps) = (k = PathManagerS)"
| "touches k (APIConfReload h c) = (k = APIS)"
| "touches k e = False"

text \<open>
  Proof vocabulary: a run \<open>keeps\<close> a subsystem when its pointer is the same afterwards
  and no appended event concerns it; a step keeps it when every run of the step does
  (\<open>c\<close> restricts this to states in which the subsystem exists); a step closes
  exactly within \<open>ks\<close> when it leaves the pointers outside \<open>ks\<close> alone and the
  subsystems it closes are those of \<open>ks\<close> that exist and must close, in the order of
  \<open>ks\<close>, or a front part of them when the step does not complete.
\<close>

definition keeps :: "Subsystem \<Rightarrow> Core \<Rightarrow> Core \<Rightarrow> bool" where
  "keeps k p p' = (getSub k p' = getSub k p \<and>
     (\<exists>es. events p' = events p @ es \<and> filter (touches k) es = []))"

definition stepKeeps :: "bool \<Rightarrow> Subsystem \<Rightarrow> (Core \<Rightarrow> Core \<times> Status) \<Rightarrow> bool" where
  "stepKeeps c k f = (\<forall>p. (c \<longrightarrow> getSub k p \<noteq> None) \<longrightarrow> keeps k p (fst (f p)))"


section \<open>A running instance\<close>

text \<open>
  A configuration with every subsystem enabled, and the core that start-up builds from
  it; they serve as concrete inputs.
\<close>

definition exampleConf :: Conf where
  "exampleConf = \<lparr>
     LogLevel = Info, LogDestinations = Some {DestinationStdout}, LogFile = ''rtsp-simple-server.log'',
     ReadTimeout = 10, WriteTimeout = 10, ReadBufferCount = 512,
     ExternalAuthenticationURL = '''',
     API = True, APIAddress = ''127.0.0.1:9997'',
     Metrics = True, MetricsAddress = ''127.0.0.1:9998'',
     PPROF = True, PPROFAddress = ''127.0.0.1:9999'',
     RunOnConnect = '''', RunOnConnectRestart = False,
     RTSPDisable = False, Protocols = Some {TransportUDP, TransportUDPMulticast, TransportTCP},
     Encryption = EncryptionOptional,
     RTSPAddress = '':8554'', RTSPSAddress = '':8322'', RTPAddress = '':8000'', RTCPAddress = '':8001'',
     MulticastIPRange = ''224.1.0.0/16'', MulticastRTPPort = 8002, MulticastRTCPPort = 8003,
     ServerKey = ''server.key'', ServerCert = ''server.crt'',
     AuthMethods = Some [AuthBasic, AuthDigest],
     RTMPDisable = False, RTMPAddress = '':1935'', RTMPEncryption = EncryptionOptional,
     RTMPSAddress = '':1936'', RTMPServerKey = ''server.key'', RTMPServerCert = ''server.crt'',
     HLSDisable = False, HLSAddress = '':8888'', HLSEncryption = False,
     HLSServerKey = ''server.key'', HLSServerCert = ''server.crt'', HLSAlwaysRemux = False,
     HLSVariant = HLSVariantLowLatency, HLSSegmentCount = 7, HLSSegmentDuration = 1,
     HLSPartDuration = 200, HLSSegmentMaxSize = 50, HLSAllowOrigin = ''*'',
     HLSTrustedProxies = None, HLSDirectory = '''',
     WebRTCDisable = False, WebRTCAddress = '':8889'', WebRTCEncryption = False,
     WebRTCServerKey = ''server.key'', WebRTCServerCert = ''server.crt'', WebRTCAllowOrigin = ''*'',
     WebRTCTrustedProxies = None, WebRTCICEServers = Some [''stun:stun.l.google.com:19302''],
     WebRTCICEHostNAT1To1IPs = None, WebRTCICEUDPMuxAddress = '''', WebRTCICETCPMuxAddress = '''',
     Paths = Some fmempty \<rparr>"

definition exampleCore :: Core where
  "exampleCore = \<lparr>
     confPath = ''rtsp-simple-server.yml'', conf = exampleConf, confFound = True,
     logger = Some 0, externalCmdPool = Some 1, metrics = Some 2, pprof = Some 3,
     pathManager = Some 4, rtspServer = Some 5, rtspsServer = Some 6, rtmpServer = Some 7,
     rtmpsServer = Some 8, hlsServer = Some 9, webRTCServer = Some 10, api = Some 11,
     confWatcher = Some 12,
     events =
       [Created LoggerS 0, Logged Info ''MediaMTX / rtsp-simple-server v0.0.0'', RlimitRaise,
        GinSetMode, Created ExternalCmdPoolS 1, Created MetricsS 2, Created PPROFS 3,
        Created PathManagerS 4, Created RTSPServerS 5, Created RTSPSServerS 6,
        Created RTMPServerS 7, Created RTMPSServerS 8, Created HLSServerS 9,
        Created WebRTCServerS 10, Created APIS 11, Created ConfWatcherS 12],
     fresh = 13 \<rparr>"

definition examplePath :: PathConf where
  "examplePath = \<lparr>Source = ''publisher'', ReadUser = ''u'', ReadPass = ''p'', ReadIPs = None\<rparr>"

text \<open>New configurations for a reload of the example core, each changing one setting.\<close>

definition rtmpsMovedConf :: Conf where
  "rtmpsMovedConf = exampleConf\<lparr>RTMPSAddress := '':1937''\<rparr>"

definition pathsChangedConf :: Conf where
  "pathsChangedConf = exampleConf\<lparr>Paths := Some (fmupd ''cam1'' examplePath fmempty)\<rparr>"


definition apiMovedConf :: Conf where
  "apiMovedConf = exampleConf\<lparr>APIAddress := '':9000''\<rparr>"

definition apiDisabledConf :: Conf where
  "apiDisabledConf = exampleConf\<lparr>API := False\<rparr>"



definition noErr :: "Subsystem \<Rightarrow> string option" where
  "noErr k = None"

section \<open>The WebRTC server\<close>

subsection \<open>Connections and the request loop\<close>

text \<open>
  A connection is a pointer to a \<open>webRTCConn\<close>; \<open>ptr\<close> is the identity of the
  pointer and the other fields are what the server reads through it. The server's
  \<open>conns\<close> is a map from such pointers to \<open>struct{}\<close>, that is a set; it is modelled
  as the list of its keys in the order in which \<open>range\<close> enumerates them (an order Go
  leaves open, so every statement below is for every list).
\<close>

record webRTCConn =
  ptr :: nat
  uuid :: string
  created :: nat
  remoteAddr :: string
  peerConnectionEstablished :: bool
  localCandidate :: string
  remoteCandidate :: string
  bytesReceived :: nat
  bytesSent :: nat

record webRTCServerAPIConnsListItem =
  itemCreated :: nat
  itemRemoteAddr :: string
  itemPeerConnectionEstablished :: bool
  itemLocalCandidate :: string
  itemRemoteCandidate :: string
  itemBytesReceived :: nat
  itemBytesSent :: nat

text \<open>
  The fields of the server that \<open>run\<close>, \<open>onRequest\<close> and \<open>authenticate\<close> read; a
  boolean stands for a pointer or interface that is only tested against \<open>nil\<close>.
\<close>

record webRTCServer =
  externalAuthenticationURL :: string
  allowOrigin :: string
  tlsConfig :: bool
  udpMuxLn :: bool
  tcpMuxLn :: bool
  conns :: "webRTCConn list"

text \<open>
  What the goroutine of \<open>run\<close> does, in program order: serving HTTP, the replies it
  sends on the \<open>res\<close> channel of a request, the connections it closes, and the steps
  of its shutdown.
\<close>

datatype ServerEvent =
    Serve bool
  | ReplyConnNew webRTCConn
  | ReplyConnsList "(string, webRTCServerAPIConnsListItem) fmap"
  | ReplyConnsKick "string option"
  | ConnClose webRTCConn
  | CtxCancel
  | HTTPShutdown
  | LnClose
  | WgWait
  | UDPMuxLnClose
  | TCPMuxLnClose
  | RequestPoolClose
  | DoneClose

text \<open>
  The communication that one \<open>select\<close> of the loop takes. \<open>ConnNew c\<close> carries the
  connection that \<open>newWebRTCConn\<close> returns for the request.
\<close>

datatype Message =
    ConnNew webRTCConn
  | ChConnClose webRTCConn
  | ChAPIConnsList
  | ChAPIConnsKick string
  | CtxDone

definition listItem :: "webRTCConn \<Rightarrow> webRTCServerAPIConnsListItem" where
  "listItem c = \<lparr>
     itemCreated = created c,
     itemRemoteAddr = remoteAddr c,
     itemPeerConnectionEstablished = peerConnectionEstablished c,
     itemLocalCandidate = localCandidate c,
     itemRemoteCandidate = remoteCandidate c,
     itemBytesReceived = bytesReceived c,
     itemBytesSent = bytesSent c \<rparr>"

fun listItems ::
  "webRTCConn list \<Rightarrow> (string, webRTCServerAPIConnsListItem) fmap
     \<Rightarrow> (string, webRTCServerAPIConnsListItem) fmap" where
  "listItems [] items = items"
| "listItems (c # cs) items = listItems cs (fmupd (uuid c) (listItem c) items)"

text \<open>The closure of the \<open>chAPIConnsKick\<close> case: the first connection with the id.\<close>

fun findConn :: "string \<Rightarrow> webRTCConn list \<Rightarrow> webRTCConn option" where
  "findConn reqId [] = None"
| "findConn reqId (c # cs) = (if uuid c = reqId then Some c else findConn reqId cs)"

text \<open>
  The \<open>chAPIConnsKick\<close> case: the connections afterwards and what the loop does,
  the last event being the reply (\<open>None\<close> is a nil error).
\<close>

definition kick :: "string \<Rightarrow> webRTCConn list \<Rightarrow> webRTCConn list \<times> ServerEvent list" where
  "kick reqId cs =
     (case findConn reqId cs of
        Some c \<Rightarrow> (removeAll c cs, [ConnClose c, ReplyConnsKick None])
      | None \<Rightarrow> (cs, [ReplyConnsKick (Some ''not found'')]))"

text \<open>
  The loop of \<open>run\<close> over the communications it takes: the connections at the end,
  the events, and whether it left the loop (it does so only on \<open>ctx.Done()\<close>; when the
  list ends without it, the loop is still waiting).
\<close>

fun runLoop :: "webRTCConn list \<Rightarrow> Message list \<Rightarrow> webRTCConn list \<times> ServerEvent list \<times> bool" where
  "runLoop cs [] = (cs, [], False)"
| "runLoop cs (CtxDone # ms) = (cs, [], True)"
| "runLoop cs (ConnNew c # ms) =
     (case runLoop (List.insert c cs) ms of (cs', es, left) \<Rightarrow> (cs', ReplyConnNew c # es, left))"
| "runLoop cs (ChConnClose c # ms) = runLoop (removeAll c cs) ms"
| "runLoop cs (ChAPIConnsList # ms) =
     (case runLoop cs ms of
        (cs', es, left) \<Rightarrow> (cs', ReplyConnsList (listItems cs fmempty) # es, left))"
| "runLoop cs (ChAPIConnsKick reqId # ms) =
     (case kick reqId cs of
        (cs1, es1) \<Rightarrow>
          (case runLoop cs1 ms of (cs', es, left) \<Rightarrow> (cs', es1 @ es, left)))"

text \<open>
  \<open>run\<close>: the events of the goroutine and whether it returned. After the loop come
  \<open>s.ctxCancel()\<close>, \<open>hs.Shutdown\<close>, \<open>s.ln.Close()\<close>, \<open>wg.Wait()\<close>, the two mux
  listeners when they exist, and the deferred calls in reverse order.
\<close>

definition shutdownSteps :: "webRTCServer \<Rightarrow> ServerEvent list" where
  "shutdownSteps s =
     [CtxCancel, HTTPShutdown, LnClose, WgWait] @
     (if udpMuxLn s then [UDPMuxLnClose] else []) @
     (if tcpMuxLn s then [TCPMuxLnClose] else []) @
     [RequestPoolClose, DoneClose]"

definition run :: "webRTCServer \<Rightarrow> Message list \<Rightarrow> ServerEvent list \<times> bool" where
  "run s ms =
     (case runLoop (conns s) ms of
        (cs, es, left) \<Rightarrow>
          if left then (Serve (tlsConfig s) # es @ shutdownSteps s, True)
          else (Serve (tlsConfig s) # es, False))"

text \<open>The steps of the shutdown, as opposed to the events of the loop.\<close>

fun isShutdownStep :: "ServerEvent \<Rightarrow> bool" where
  "isShutdownStep CtxCancel = True"
| "isShutdownStep HTTPShutdown = True"
| "isShutdownStep LnClose = True"
| "isShutdownStep WgWait = True"
| "isShutdownStep UDPMuxLnClose = True"
| "isShutdownStep TCPMuxLnClose = True"
| "isShutdownStep RequestPoolClose = True"
| "isShutdownStep DoneClose = True"
| "isShutdownStep e = False"

text \<open>
  \<open>apiConnsKick\<close>, the caller's side: its \<open>select\<close> either hands the request to the
  loop, and the call returns the error of the reply, or takes \<open>ctx.Done()\<close> and the
  call returns \<open>terminated\<close>. Which of the two happens is the parameter \<open>delivered\<close>.
\<close>

definition apiConnsKick ::
  "bool \<Rightarrow> string \<Rightarrow> webRTCConn list \<Rightarrow> webRTCConn list \<times> ServerEvent list \<times> string option" where
  "apiConnsKick delivered reqId cs =
     (if delivered then
        (case kick reqId cs of
           (cs', es) \<Rightarrow>
             (cs', es, (case last es of ReplyConnsKick err \<Rightarrow> err | _ \<Rightarrow> None)))
      else (cs, [], Some ''terminated''))"

subsection \<open>Authentication and the HTTP handler\<close>

text \<open>
  A request as the handler reads it: \<open>BasicAuth\<close> is \<open>None\<close> when
  \<open>ctx.Request.BasicAuth()\<close> returns \<open>ok = false\<close>.
\<close>

record Request =
  Method :: string
  URLPath :: string
  RawQuery :: string
  ClientIP :: string
  BasicAuth :: "(string \<times> string) option"
  AccessControlRequestHeaders :: string

record path =
  name :: string
  safeConf :: PathConf

text \<open>
  What the handler calls outside this file: the standard library (\<open>net.ParseIP\<close>, the
  \<open>String\<close> method of an IP, \<open>path.Dir\<close>, \<open>path.Base\<close>), functions of the package
  that are defined elsewhere (\<open>externalAuth\<close>, \<open>ipEqualOrInRange\<close>,
  \<open>pathManager.describe\<close>) and the embedded page. An IP is its bytes, \<open>None\<close> when nil;
  an error is its message. \<open>externalAuth\<close> takes the URL, the IP, the user, the
  password, the path name and the raw query (the protocol, the id and the publish flag
  are constants at this call); \<open>externalAuthCall\<close> is the call that
  \<open>authenticate\<close> makes.
\<close>

type_synonym IP = "nat list option"

record Env =
  ParseIP :: "string \<Rightarrow> IP"
  IPString :: "IP \<Rightarrow> string"
  externalAuth :: "string \<Rightarrow> string \<Rightarrow> string \<Rightarrow> string \<Rightarrow> string \<Rightarrow> string \<Rightarrow> string option"
  ipEqualOrInRange :: "IP \<Rightarrow> string list \<Rightarrow> bool"
  describe :: "string \<Rightarrow> string + path"
  pathDir :: "string \<Rightarrow> string"
  pathBase :: "string \<Rightarrow> string"
  webrtcIndex :: string

datatype AuthError = pathErrAuthNotCritical | pathErrAuthCritical string

datatype Check = ExternalAuthCheck | IPCheck | CredentialsCheck

text \<open>
  \<open>authenticate\<close> returns the checks it made, in order, and the error (\<open>None\<close> is nil).
  The three stages are the three \<open>if\<close> statements of the source.
\<close>

definition externalAuthCall :: "Env \<Rightarrow> webRTCServer \<Rightarrow> path \<Rightarrow> Request \<Rightarrow> string option" where
  "externalAuthCall env s pa req =
     externalAuth env (externalAuthenticationURL s)
       (IPString env (ParseIP env (ClientIP req)))
       (case BasicAuth req of None \<Rightarrow> '''' | Some (user, pass) \<Rightarrow> user)
       (case BasicAuth req of None \<Rightarrow> '''' | Some (user, pass) \<Rightarrow> pass)
       (name pa) (RawQuery req)"

definition authExternal :: "Env \<Rightarrow> webRTCServer \<Rightarrow> path \<Rightarrow> Request \<Rightarrow> Check list \<times> AuthError option" where
  "authExternal env s pa req =
     (if externalAuthenticationURL s \<noteq> '''' then
        (case externalAuthCall env s pa req of
           Some err \<Rightarrow>
             (if BasicAuth req = None then ([ExternalAuthCheck], Some pathErrAuthNotCritical)
              else ([ExternalAuthCheck],
                    Some (pathErrAuthCritical (''external authentication failed: '' @ err))))
         | None \<Rightarrow> ([ExternalAuthCheck], None))
      else ([], None))"

definition authIP :: "Env \<Rightarrow> path \<Rightarrow> Request \<Rightarrow> Check list \<times> AuthError option" where
  "authIP env pa req =
     (case ReadIPs (safeConf pa) of
        None \<Rightarrow> ([], None)
      | Some pathIPs \<Rightarrow>
          if \<not> ipEqualOrInRange env (ParseIP env (ClientIP req)) pathIPs then
            ([IPCheck],
             Some (pathErrAuthCritical
               (''IP '' @ [CHR 0x27] @ IPString env (ParseIP env (ClientIP req)) @ [CHR 0x27] @
                '' not allowed'')))
          else ([IPCheck], None))"

definition authCredentials :: "path \<Rightarrow> Request \<Rightarrow> Check list \<times> AuthError option" where
  "authCredentials pa req =
     (if ReadUser (safeConf pa) \<noteq> '''' then
        (case BasicAuth req of
           None \<Rightarrow> ([CredentialsCheck], Some pathErrAuthNotCritical)
         | Some (user, pass) \<Rightarrow>
             if user \<noteq> ReadUser (safeConf pa) \<or> pass \<noteq> ReadPass (safeConf pa) then
               ([CredentialsCheck], Some (pathErrAuthCritical ''invalid credentials''))
             else ([CredentialsCheck], None))
      else ([], None))"

definition authenticate :: "Env \<Rightarrow> webRTCServer \<Rightarrow> path \<Rightarrow> Request \<Rightarrow> Check list \<times> AuthError option" where
  "authenticate env s pa req =
     (case authExternal env s pa req of
        (c1, Some e) \<Rightarrow> (c1, Some e)
      | (c1, None) \<Rightarrow>
          (case authIP env pa req of
             (c2, Some e) \<Rightarrow> (c1 @ c2, Some e)
           | (c2, None) \<Rightarrow>
               (case authCredentials pa req of
                  (c3, r) \<Rightarrow> (c1 @ c2 @ c3, r))))"

text \<open>\<open>strings.HasSuffix\<close> and \<open>strings.TrimSuffix\<close>.\<close>

definition hasSuffix :: "string \<Rightarrow> string \<Rightarrow> bool" where
  "hasSuffix s suf = (length suf \<le> length s \<and> drop (length s - length suf) s = suf)"

definition trimSuffix :: "string \<Rightarrow> string \<Rightarrow> string" where
  "trimSuffix s suf = (if hasSuffix s suf then take (length s - length suf) s else s)"

text \<open>
  The response: the header assignments in order, the status written (if any), the body
  written (if any), the lines logged, and whether the request was handed to the
  WebSocket branch.
\<close>

record Response =
  headers :: "(string \<times> string) list"
  status :: "nat option"
  body :: "string option"
  logged :: "(Level \<times> string) list"
  websocket :: bool

definition setHeader :: "string \<Rightarrow> string \<Rightarrow> Response \<Rightarrow> Response" where
  "setHeader k v r = r\<lparr>headers := headers r @ [(k, v)]\<rparr>"

definition writeHeader :: "nat \<Rightarrow> Response \<Rightarrow> Response" where
  "writeHeader code r = r\<lparr>status := Some code\<rparr>"

text \<open>\<open>s.log\<close> prefixes the format with \<open>[WebRTC]\<close> and passes it to the parent.\<close>

definition logLine :: "Level \<Rightarrow> string \<Rightarrow> Response \<Rightarrow> Response" where
  "logLine lvl msg r = r\<lparr>logged := logged r @ [(lvl, ''[WebRTC] '' @ msg)]\<rparr>"

definition challenge :: string where
  \<open>challenge = ''Basic realm="rtsp-simple-server"''\<close>

definition splitPath :: "Env \<Rightarrow> string \<Rightarrow> string \<times> string" where
  "splitPath env pa =
     (if hasSuffix pa ''/ws'' then (pathDir env pa, pathBase env pa) else (pa, ''''))"

text \<open>
  \<open>onRequest\<close>; \<open>None\<close> is the panic of \<open>ctx.Request.URL.Path[1:]\<close> on an empty path.
\<close>

definition onRequest :: "Env \<Rightarrow> webRTCServer \<Rightarrow> Request \<Rightarrow> Response option" where
  "onRequest env s req =
     (let r0 = setHeader ''Access-Control-Allow-Credentials'' ''true''
                 (setHeader ''Access-Control-Allow-Origin'' (allowOrigin s)
                    \<lparr>headers = [], status = None, body = None, logged = [], websocket = False\<rparr>)
      in
      if Method req = ''GET'' then
        (case URLPath req of
           [] \<Rightarrow> None
         | slash # pa \<Rightarrow>
             if pa = '''' \<or> pa = ''favicon.ico'' then Some r0
             else
               (case splitPath env pa of
                  (dir, fname) \<Rightarrow>
                    if fname = '''' \<and> \<not> hasSuffix dir ''/'' then
                      Some (writeHeader 301 (setHeader ''Location'' (''/'' @ dir @ ''/'') r0))
                    else
                      (case describe env (trimSuffix dir ''/'') of
                         Inl err \<Rightarrow> Some (writeHeader 404 r0)
                       | Inr p \<Rightarrow>
                           (case snd (authenticate env s p req) of
                              Some (pathErrAuthCritical message) \<Rightarrow>
                                Some (writeHeader 401
                                  (setHeader ''WWW-Authenticate'' challenge
                                    (logLine Info (''authentication error: '' @ message) r0)))
                            | Some pathErrAuthNotCritical \<Rightarrow>
                                Some (writeHeader 401 (setHeader ''WWW-Authenticate'' challenge r0))
                            | None \<Rightarrow>
                                if fname = '''' then
                                  Some ((writeHeader 200 (setHeader ''Content-Type'' ''text/html'' r0))
                                          \<lparr>body := Some (webrtcIndex env)\<rparr>)
                                else if fname = ''ws'' then Some (r0\<lparr>websocket := True\<rparr>)
                                else Some r0))))
      else if Method req = ''OPTIONS'' then
        Some (writeHeader 200
          (setHeader ''Access-Control-Allow-Headers'' (AccessControlRequestHeaders req)
            (setHeader ''Access-Control-Allow-Methods'' ''GET, OPTIONS'' r0)))
      else Some r0)"

text \<open>The value a header has in a response: its last assignment.\<close>

definition headerValue :: "string \<Rightarrow> Response \<Rightarrow> string option" where
  "headerValue k r = map_of (rev (headers r)) k"

text \<open>Concrete inputs for the WebRTC server.\<close>

definition exampleConn :: "nat \<Rightarrow> string \<Rightarrow> webRTCConn" where
  "exampleConn n u = \<lparr>
     ptr = n, uuid = u, created = 0, remoteAddr = ''192.168.1.7:5000'',
     peerConnectionEstablished = True, localCandidate = '''', remoteCandidate = '''',
     bytesReceived = 0, bytesSent = 0 \<rparr>"

definition exampleServer :: webRTCServer where
  "exampleServer = \<lparr>
     externalAuthenticationURL = '''', allowOrigin = ''*'', tlsConfig = False,
     udpMuxLn = True, tcpMuxLn = True,
     conns = [exampleConn 1 ''aaaa'', exampleConn 2 ''bbbb''] \<rparr>"

definition secretPath :: path where
  "secretPath = \<lparr>name = ''secret'', safeConf = examplePath\<rparr>"

definition guardedPath :: path where
  "guardedPath = \<lparr>name = ''guarded'', safeConf = examplePath\<lparr>ReadIPs := Some [''10.0.0.0/8'']\<rparr>\<rparr>"

definition exampleEnv :: Env where
  "exampleEnv = \<lparr>
     ParseIP = (\<lambda>a. if a = ''192.168.1.7'' then Some [192, 168, 1, 7] else None),
     IPString = (\<lambda>ip. case ip of None \<Rightarrow> ''<nil>'' | Some bs \<Rightarrow> ''192.168.1.7''),
     externalAuth = (\<lambda>url ip user pass pathName query.
        if user = ''u'' \<and> pass = ''p'' then None else Some ''bad status code: 401''),
     ipEqualOrInRange = (\<lambda>ip ips. ip = Some [192, 168, 1, 7] \<and> ''192.168.1.0/24'' \<in> set ips),
     describe = (\<lambda>pathName.
        if pathName = ''secret''
        then Inr secretPath
        else Inl ''no one is publishing''),
     pathDir = (\<lambda>p. take (length p - 3) p),
     pathBase = (\<lambda>p. drop (length p - 2) p),
     webrtcIndex = ''<html></html>'' \<rparr>"

definition externalAuthServer :: webRTCServer where
  "externalAuthServer = exampleServer\<lparr>externalAuthenticationURL := ''http://127.0.0.1:9120/auth''\<rparr>"

definition exampleRequest :: "(string \<times> string) option \<Rightarrow> Request" where
  "exampleRequest auth = \<lparr>
     Method = ''GET'', URLPath = ''/secret/'', RawQuery = '''', ClientIP = ''192.168.1.7'',
     BasicAuth = auth, AccessControlRequestHeaders = '''' \<rparr>"

section \<open>Lemmas\<close>

subsection \<open>Steps of the supervisor and the trace\<close>

lemma getSub_setSub: "getSub k (setSub k' v p) = (if k = k' then v else getSub k p)"
  by (cases k; cases k'; simp)

lemma events_setSub [simp]: "events (setSub k v p) = events p"
  by (cases k) simp_all

lemma conf_setSub [simp]: "conf (setSub k v p) = conf p"
  by (cases k) simp_all

lemma fresh_setSub [simp]: "fresh (setSub k v p) = fresh p"
  by (cases k) simp_all

lemma confFound_setSub [simp]: "confFound (setSub k v p) = confFound p"
  by (cases k) simp_all

lemma getSub_emit [simp]: "getSub k (emit e p) = getSub k p"
  by (cases k) (simp_all add: emit_def)

lemma getSub_fresh_update [simp]: "getSub k (p\<lparr>fresh := n\<rparr>) = getSub k p"
  by (cases k) simp_all

lemma getSub_conf_update [simp]: "getSub k (p\<lparr>conf := c\<rparr>) = getSub k p"
  by (cases k) simp_all

lemma events_emit [simp]: "events (emit e p) = events p @ [e]"
  by (simp add: emit_def)

lemma conf_emit [simp]: "conf (emit e p) = conf p"
  by (simp add: emit_def)

lemma fresh_emit [simp]: "fresh (emit e p) = fresh p"
  by (simp add: emit_def)

lemma confFound_emit [simp]: "confFound (emit e p) = confFound p"
  by (simp add: emit_def)

lemma logger_emit [simp]: "logger (emit e p) = logger p"
  by (simp add: emit_def)

lemma keeps_refl: "keeps k p p"
  by (simp add: keeps_def)

lemma keeps_trans: "keeps k p q \<Longrightarrow> keeps k q r \<Longrightarrow> keeps k p r"
  unfolding keeps_def by auto

lemma stepKeeps_weaken: "stepKeeps False k f \<Longrightarrow> stepKeeps c k f"
  by (simp add: stepKeeps_def)

lemma stepKeeps_runSteps:
  "(\<forall>f \<in> set fs. stepKeeps c k f) \<Longrightarrow> stepKeeps c k (runSteps fs)"
proof (induction fs)
  case Nil
  show ?case by (simp add: stepKeeps_def keeps_refl)
next
  case (Cons f fs)
  then have f: "stepKeeps c k f" and fs: "stepKeeps c k (runSteps fs)" by simp_all
  show ?case
    unfolding stepKeeps_def
  proof (intro allI impI)
    fix p
    assume pre: "c \<longrightarrow> getSub k p \<noteq> None"
    obtain p' st where fp: "f p = (p', st)" by (cases "f p")
    from f pre have "keeps k p (fst (f p))" by (simp add: stepKeeps_def)
    with fp have k1: "keeps k p p'" by simp
    then have pre': "c \<longrightarrow> getSub k p' \<noteq> None" using pre by (simp add: keeps_def)
    show "keeps k p (fst (runSteps (f # fs) p))"
    proof (cases st)
      case Done
      from fs pre' have "keeps k p' (fst (runSteps fs p'))" by (simp add: stepKeeps_def)
      with k1 show ?thesis using fp Done by (auto intro: keeps_trans)
    next
      case (Failed e)
      then show ?thesis using fp k1 by simp
    next
      case Panicked
      then show ?thesis using fp k1 by simp
    qed
  qed
qed

lemma stepKeeps_closeSub: "k' \<noteq> k \<or> \<not> must \<Longrightarrow> stepKeeps c k (closeSub must k')"
  by (auto simp: stepKeeps_def keeps_def closeSub_def getSub_setSub split: option.splits)

lemma stepKeeps_assignNew: "k' \<noteq> k \<Longrightarrow> stepKeeps c k (assignNew k')"
  by (auto simp: stepKeeps_def keeps_def assignNew_def getSub_setSub)

lemma stepKeeps_tryNew: "k' \<noteq> k \<Longrightarrow> stepKeeps c k (tryNew newErr k')"
  by (auto simp: stepKeeps_def keeps_def tryNew_def assignNew_def getSub_setSub split: option.splits)

lemma stepKeeps_ensure: "k' \<noteq> k \<Longrightarrow> stepKeeps c k (\<lambda>p. ensure newErr (en p) k' p)"
  by (auto simp: stepKeeps_def keeps_def ensure_def tryNew_def assignNew_def getSub_setSub split: option.splits)

lemma stepKeeps_ensure_present: "stepKeeps True k (\<lambda>p. ensure newErr (en p) k p)"
  by (auto simp: stepKeeps_def keeps_def ensure_def)

lemma stepKeeps_Log: "stepKeeps c k (Log lvl msg)"
  by (auto simp: stepKeeps_def keeps_def Log_def split: option.splits)

lemma stepKeeps_reloadPaths: "k \<noteq> PathManagerS \<Longrightarrow> stepKeeps c k (reloadPaths nc)"
  by (auto simp: stepKeeps_def keeps_def reloadPaths_def split: option.splits)

lemma stepKeeps_closeOrReloadAPI: "k \<noteq> APIS \<Longrightarrow> stepKeeps c k (closeOrReloadAPI nc byAPI must)"
  by (auto simp del: setSub.simps simp: stepKeeps_def keeps_def closeOrReloadAPI_def getSub_setSub split: option.splits)

lemma stepKeeps_closeExternalCmdPool: "k \<noteq> ExternalCmdPoolS \<Longrightarrow> stepKeeps c k (closeExternalCmdPool nc)"
  by (auto simp: stepKeeps_def keeps_def closeExternalCmdPool_def Log_def split: option.splits)

lemma stepKeeps_cleanup:
  "stepKeeps c k (\<lambda>p. if b then (emit RpiCameraCleanup p, Done) else (p, Done))"
  by (auto simp: stepKeeps_def keeps_def)

lemma stepKeeps_closeTheLogger: "k \<noteq> LoggerS \<Longrightarrow> stepKeeps c k (closeTheLogger must)"
  by (auto simp del: setSub.simps simp: stepKeeps_def keeps_def closeTheLogger_def getSub_setSub split: option.splits)

lemma stepKeeps_setConf: "stepKeeps c k (\<lambda>p. (p\<lparr>conf := n\<rparr>, Done))"
  by (auto simp: stepKeeps_def keeps_def)

lemma stepKeeps_createInitial: "k \<noteq> ExternalCmdPoolS \<Longrightarrow> stepKeeps c k (createInitial False)"
  by (auto simp: stepKeeps_def keeps_def createInitial_def)



lemma stepKeeps_skip: "stepKeeps c k (\<lambda>p. (p, Done))"
  by (simp add: stepKeeps_def keeps_refl)

lemma stepKeeps_if:
  "stepKeeps c k f \<Longrightarrow> stepKeeps c k g \<Longrightarrow> stepKeeps c k (\<lambda>p. if b p then f p else g p)"
  by (simp add: stepKeeps_def)

lemma stepKeeps_newPathManager:
  "stepKeeps True PathManagerS (\<lambda>p. if pathManager p = None then assignNew PathManagerS p else (p, Done))"
  by (simp add: stepKeeps_def keeps_refl)

lemmas stepKeeps_intros =
  stepKeeps_closeSub stepKeeps_assignNew stepKeeps_tryNew stepKeeps_ensure stepKeeps_Log
  stepKeeps_reloadPaths stepKeeps_closeOrReloadAPI stepKeeps_closeExternalCmdPool
  stepKeeps_cleanup stepKeeps_closeTheLogger stepKeeps_setConf stepKeeps_createInitial
  stepKeeps_skip

lemma stepKeepsD: "stepKeeps c k f \<Longrightarrow> (c \<longrightarrow> getSub k p \<noteq> None) \<Longrightarrow> keeps k p (fst (f p))"
  by (simp add: stepKeeps_def)

lemma createResources_keeps_pathManager:
  "stepKeeps True PathManagerS (createResources newErr False)"
  unfolding createResources_def
proof (rule stepKeeps_runSteps, simp del: runSteps.simps, intro conjI)
  show "stepKeeps True PathManagerS (\<lambda>p. if pathManager p = None then assignNew PathManagerS p else (p, Done))"
    by (rule stepKeeps_newPathManager)
  show "stepKeeps True PathManagerS (\<lambda>p. if logger p = None then tryNew newErr LoggerS p else (p, Done))"
    by (intro stepKeeps_if stepKeeps_tryNew stepKeeps_skip) simp
qed (intro stepKeeps_ensure stepKeeps_createInitial stepKeeps_skip; simp)+

lemma runSteps_Cons_Done: "f p = (p1, Done) \<Longrightarrow> runSteps (f # fs) p = runSteps fs p1"
  by simp

lemma runSteps_Cons_stop: "f p = (p1, st) \<Longrightarrow> st \<noteq> Done \<Longrightarrow> runSteps (f # fs) p = (p1, st)"
  by (cases st) simp_all

lemma keeps_since:
  "keeps k p p' \<Longrightarrow> events p' = events p @ since p p' \<and> filter (touches k) (since p p') = []"
  by (auto simp: keeps_def since_def)




lemma subseq_append_right: "subseq xs ks \<Longrightarrow> subseq xs (ks @ ls)"
  using list_emb_append_mono [of "(=)" xs ks "[]" ls] by simp

lemma runSteps_rel:
  assumes refl: "\<And>p. R p p" and trans: "\<And>p q r. R p q \<Longrightarrow> R q r \<Longrightarrow> R p r"
    and step: "\<And>f p. f \<in> set fs \<Longrightarrow> R p (fst (f p))"
  shows "R p (fst (runSteps fs p))"
  using step
proof (induction fs arbitrary: p)
  case Nil
  show ?case by (simp add: refl)
next
  case (Cons f fs)
  obtain p' st where fp: "f p = (p', st)" by (cases "f p")
  have r1: "R p p'" using Cons.prems [of f p] fp by simp
  show ?case
  proof (cases "st = Done")
    case True
    have "R p' (fst (runSteps fs p'))" using Cons.IH Cons.prems by simp
    with r1 show ?thesis using fp True by (auto intro: trans)
  next
    case False
    then have "runSteps (f # fs) p = (p', st)" using fp by (cases st) simp_all
    with r1 show ?thesis by simp
  qed
qed

lemma runSteps_append:
  "runSteps (fs @ gs) p =
     (case runSteps fs p of (p', Done) \<Rightarrow> runSteps gs p' | (p', st) \<Rightarrow> (p', st))"
proof (induction fs arbitrary: p)
  case Nil
  show ?case by simp
next
  case (Cons f fs)
  obtain p' st where fp: "f p = (p', st)" by (cases "f p")
  show ?case using fp Cons.IH by (cases st) simp_all
qed

lemma runSteps_append_Done:
  assumes "runSteps (fs @ gs) p = (r, Done)"
  shows "\<exists>q. runSteps fs p = (q, Done) \<and> runSteps gs q = (r, Done)"
proof -
  obtain q st where q: "runSteps fs p = (q, st)" by (cases "runSteps fs p")
  show ?thesis using assms q unfolding runSteps_append by (cases st) simp_all
qed

lemma createResources_conf: "conf (fst (createResources newErr False p)) = conf p"
  unfolding createResources_def
proof (rule runSteps_rel [where R = "\<lambda>p p'. conf p' = conf p"], goal_cases)
  case (3 f p)
  then show ?case
    by (auto simp: ensure_def tryNew_def assignNew_def createInitial_def split: option.splits)
qed simp_all


lemma reloadPaths_Done: "pathManager p \<noteq> None \<Longrightarrow> snd (reloadPaths nc p) = Done"
  by (auto simp: reloadPaths_def split: option.splits)

lemma closeSub_Done: "snd (closeSub must k p) = Done"
  by (simp add: closeSub_def split: option.splits)

lemma createResources_split:
  "createResources newErr False = runSteps
     ([(\<lambda>p. if logger p = None then tryNew newErr LoggerS p else (p, Done)),
        createInitial False,
        (\<lambda>p. ensure newErr (Metrics (conf p)) MetricsS p),
        (\<lambda>p. ensure newErr (PPROF (conf p)) PPROFS p),
        (\<lambda>p. if pathManager p = None then assignNew PathManagerS p else (p, Done)),
        (\<lambda>p. ensure newErr
               (\<not> RTSPDisable (conf p) \<and>
                (Encryption (conf p) = EncryptionNo \<or> Encryption (conf p) = EncryptionOptional))
               RTSPServerS p),
        (\<lambda>p. ensure newErr
               (\<not> RTSPDisable (conf p) \<and>
                (Encryption (conf p) = EncryptionStrict \<or> Encryption (conf p) = EncryptionOptional))
               RTSPSServerS p),
        (\<lambda>p. ensure newErr
               (\<not> RTMPDisable (conf p) \<and>
                (RTMPEncryption (conf p) = EncryptionNo \<or> RTMPEncryption (conf p) = EncryptionOptional))
               RTMPServerS p),
        (\<lambda>p. ensure newErr
               (\<not> RTMPDisable (conf p) \<and>
                (RTMPEncryption (conf p) = EncryptionStrict \<or> RTMPEncryption (conf p) = EncryptionOptional))
               RTMPSServerS p),
        (\<lambda>p. ensure newErr (\<not> HLSDisable (conf p)) HLSServerS p),
        (\<lambda>p. ensure newErr (\<not> WebRTCDisable (conf p)) WebRTCServerS p)] @
      [(\<lambda>p. ensure newErr (API (conf p)) APIS p), (\<lambda>p. (p, Done))])"
  by (simp add: createResources_def del: runSteps.simps)

text \<open>What \<open>createResources\<close> does to the API when there is none.\<close>

lemma createResources_API:
  assumes none: "api p = None"
  shows "\<exists>es. events (fst (createResources newErr False p)) = events p @ es \<and>
           filter (touches APIS) es =
             (case api (fst (createResources newErr False p)) of
                None \<Rightarrow> [] | Some b \<Rightarrow> [Created APIS b]) \<and>
           (\<forall>b. api (fst (createResources newErr False p)) = Some b \<longrightarrow> fresh p \<le> b) \<and>
           (snd (createResources newErr False p) = Done \<longrightarrow>
              (api (fst (createResources newErr False p)) \<noteq> None) = API (conf p))"
proof -
  let ?pre = "[(\<lambda>p. if logger p = None then tryNew newErr LoggerS p else (p, Done)),
        createInitial False,
        (\<lambda>p. ensure newErr (Metrics (conf p)) MetricsS p),
        (\<lambda>p. ensure newErr (PPROF (conf p)) PPROFS p),
        (\<lambda>p. if pathManager p = None then assignNew PathManagerS p else (p, Done)),
        (\<lambda>p. ensure newErr
               (\<not> RTSPDisable (conf p) \<and>
                (Encryption (conf p) = EncryptionNo \<or> Encryption (conf p) = EncryptionOptional))
               RTSPServerS p),
        (\<lambda>p. ensure newErr
               (\<not> RTSPDisable (conf p) \<and>
                (Encryption (conf p) = EncryptionStrict \<or> Encryption (conf p) = EncryptionOptional))
               RTSPSServerS p),
        (\<lambda>p. ensure newErr
               (\<not> RTMPDisable (conf p) \<and>
                (RTMPEncryption (conf p) = EncryptionNo \<or> RTMPEncryption (conf p) = EncryptionOptional))
               RTMPServerS p),
        (\<lambda>p. ensure newErr
               (\<not> RTMPDisable (conf p) \<and>
                (RTMPEncryption (conf p) = EncryptionStrict \<or> RTMPEncryption (conf p) = EncryptionOptional))
               RTMPSServerS p),
        (\<lambda>p. ensure newErr (\<not> HLSDisable (conf p)) HLSServerS p),
        (\<lambda>p. ensure newErr (\<not> WebRTCDisable (conf p)) WebRTCServerS p)]"
  let ?api = "\<lambda>p. ensure newErr (API (conf p)) APIS p"
  obtain q st where q: "runSteps ?pre p = (q, st)" by (cases "runSteps ?pre p")
  have "stepKeeps False APIS (runSteps ?pre)"
    by (rule stepKeeps_runSteps, simp del: runSteps.simps)
       (intro conjI stepKeeps_if stepKeeps_intros; simp)
  then have "keeps APIS p (fst (runSteps ?pre p))"
    by (rule stepKeepsD) simp
  then have kq: "keeps APIS p q"
    unfolding q by simp
  then obtain es where es: "events q = events p @ es" "filter (touches APIS) es = []"
    and apiq: "api q = None"
    using none by (auto simp: keeps_def)
  have "conf (fst (runSteps ?pre p)) = conf p"
  proof (rule runSteps_rel [where R = "\<lambda>p p'. conf p' = conf p"], goal_cases)
    case (3 f p)
    then show ?case
      by (auto simp: ensure_def tryNew_def assignNew_def createInitial_def split: option.splits)
  qed simp_all
  then have confq: "conf q = conf p"
    unfolding q by simp
  have "fresh p \<le> fresh (fst (runSteps ?pre p))"
  proof (rule runSteps_rel [where R = "\<lambda>p p'. fresh p \<le> fresh p'"], goal_cases)
    case (3 f p)
    then show ?case
      by (auto simp: ensure_def tryNew_def assignNew_def createInitial_def split: option.splits)
  qed simp_all
  then have freshq: "fresh p \<le> fresh q"
    unfolding q by simp
  have whole: "createResources newErr False p =
      (case st of Done \<Rightarrow> runSteps [?api, (\<lambda>p. (p, Done))] q | _ \<Rightarrow> (q, st))"
    unfolding createResources_split runSteps_append q by (cases st) simp_all
  show ?thesis
  proof (cases "st = Done")
    case False
    then have "createResources newErr False p = (q, st)"
      using whole by (cases st) simp_all
    then show ?thesis using es apiq False by simp
  next
    case True
    then have w: "createResources newErr False p = runSteps [?api, (\<lambda>p. (p, Done))] q"
      using whole by simp
    show ?thesis
      unfolding w using es apiq confq freshq
      by (auto simp: ensure_def tryNew_def assignNew_def split: option.splits)
  qed
qed


lemma closeTail_keeps_API:
  "stepKeeps False APIS (runSteps
       [closeSub b2 RTSPSServerS,
        closeSub b3 RTSPServerS,
        closeSub b4 PathManagerS,
        closeSub b5 WebRTCServerS,
        closeSub b6 HLSServerS,
        closeSub b7 RTMPSServerS,
        closeSub b8 RTMPServerS,
        closeSub b9 PPROFS,
        closeSub b10 MetricsS,
        closeExternalCmdPool newConf,
        (\<lambda>p. if b12 then (emit RpiCameraCleanup p, Done) else (p, Done)),
        closeTheLogger b11])"
  by (rule stepKeeps_runSteps, simp del: runSteps.simps)
     (intro conjI stepKeeps_intros; simp)

text \<open>The state and the API events of \<open>closeResources\<close> on a reload, when an API exists.\<close>

lemma closeResources_API:
  assumes pm: "pathManager p \<noteq> None" and a: "api p = Some a"
  shows "\<exists>es. events (fst (closeResources (Some n) calledByAPI p)) = events p @ es \<and>
           conf (fst (closeResources (Some n) calledByAPI p)) = conf p \<and>
           fresh (fst (closeResources (Some n) calledByAPI p)) = fresh p \<and>
           (if closeAPI (Some n) (conf p)
            then api (fst (closeResources (Some n) calledByAPI p)) = None \<and>
                 filter (touches APIS) es = [Closed APIS a]
            else api (fst (closeResources (Some n) calledByAPI p)) = Some a \<and>
                 filter (touches APIS) es =
                   (if calledByAPI then [] else [APIConfReload a (Some n)]))"
proof -
  let ?must = "closeAPI (Some n) (conf p)"
  obtain p1 where r1: "reloadPaths (Some n) p = (p1, Done)"
    using reloadPaths_Done [OF pm, of "Some n"] by (cases "reloadPaths (Some n) p") simp
  have k1: "keeps APIS p p1"
    using stepKeepsD [OF stepKeeps_reloadPaths [of APIS False "Some n"], of p] r1 by simp
  have c1: "conf p1 = conf p" "fresh p1 = fresh p"
    using r1 by (auto simp: reloadPaths_def split: option.splits if_splits)
  have r2: "closeSub (Some n = None) ConfWatcherS p1 = (p1, Done)"
    by (simp add: closeSub_def split: option.splits)
  let ?p3 = "if ?must then setSub APIS None (emit (Closed APIS a) p1)
             else if \<not> calledByAPI then emit (APIConfReload a (Some n)) p1 else p1"
  have a1: "api p1 = Some a"
    using k1 a by (simp add: keeps_def)
  have r3: "closeOrReloadAPI (Some n) calledByAPI ?must p1 = (?p3, Done)"
    using a1 by (simp add: closeOrReloadAPI_def)
  have unf: "closeResources (Some n) calledByAPI p = runSteps
       [closeSub (closeRTSPSServer (Some n) (conf p)) RTSPSServerS,
        closeSub (closeRTSPServer (Some n) (conf p)) RTSPServerS,
        closeSub (closePathManager (Some n) (conf p)) PathManagerS,
        closeSub (closeWebRTCServer (Some n) (conf p)) WebRTCServerS,
        closeSub (closeHLSServer (Some n) (conf p)) HLSServerS,
        closeSub (closeRTMPSServer (Some n) (conf p)) RTMPSServerS,
        closeSub (closeRTMPServer (Some n) (conf p)) RTMPServerS,
        closeSub (closePPROF (Some n) (conf p)) PPROFS,
        closeSub (closeMetrics (Some n) (conf p)) MetricsS,
        closeExternalCmdPool (Some n),
        (\<lambda>p. if Some n = None then (emit RpiCameraCleanup p, Done) else (p, Done)),
        closeTheLogger (closeLogger (Some n) (conf p))] ?p3"
    unfolding closeResources_def
      runSteps_Cons_Done [of "reloadPaths (Some n)" p, OF r1]
      runSteps_Cons_Done [of "closeSub (Some n = None) ConfWatcherS" p1, OF r2]
      runSteps_Cons_Done [of "closeOrReloadAPI (Some n) calledByAPI ?must" p1, OF r3]
    by (rule refl)
  let ?r = "fst (closeResources (Some n) calledByAPI p)"
  have k3: "keeps APIS ?p3 ?r"
    unfolding unf by (rule stepKeepsD [OF closeTail_keeps_API]) simp
  have "conf ?r = conf ?p3 \<and> fresh ?r = fresh ?p3"
    unfolding unf
  proof (rule runSteps_rel [where R = "\<lambda>p p'. conf p' = conf p \<and> fresh p' = fresh p"], goal_cases)
    case (3 f p)
    then show ?case
      by (auto simp: closeSub_def closeExternalCmdPool_def closeTheLogger_def Log_def
          split: option.splits)
  qed simp_all
  then have c3: "conf ?r = conf p" "fresh ?r = fresh p"
    using c1 by (auto split: if_splits)
  obtain es1 where es1: "events p1 = events p @ es1" "filter (touches APIS) es1 = []"
    using k1 by (auto simp: keeps_def)
  obtain es3 where es3: "events ?r = events ?p3 @ es3" "filter (touches APIS) es3 = []"
    and a3: "api ?r = api ?p3"
    using k3 by (auto simp: keeps_def)
  show ?thesis
  proof (cases ?must)
    case True
    then have "events ?r = events p @ (es1 @ Closed APIS a # es3)" "api ?r = None"
      using es1 es3 a3 by simp_all
    then show ?thesis using True c3 es1(2) es3(2) by force
  next
    case False
    show ?thesis
    proof (cases calledByAPI)
      case True
      then have "events ?r = events p @ (es1 @ es3)" "api ?r = Some a"
        using False es1 es3 a3 a1 by simp_all
      then show ?thesis using False True c3 es1(2) es3(2) by force
    next
      case nb: False
      then have "events ?r = events p @ (es1 @ APIConfReload a (Some n) # es3)" "api ?r = Some a"
        using False es1 es3 a3 a1 by (simp_all add: emit_def)
      then show ?thesis using False nb c3 es1(2) es3(2) by force
    qed
  qed
qed



subsection \<open>The exact sequence of a tear-down\<close>














subsection \<open>The loop and the authenticator of the WebRTC server\<close>

lemma findConn_None_iff: "(findConn reqId cs = None) = (\<forall>c \<in> set cs. uuid c \<noteq> reqId)"
  by (induction cs) auto

lemma findConn_Some: "findConn reqId cs = Some c \<Longrightarrow> c \<in> set cs \<and> uuid c = reqId"
  by (induction cs) (auto split: if_splits)



lemma runLoop_no_shutdown: "filter isShutdownStep (fst (snd (runLoop cs ms))) = []"
  by (induction cs ms rule: runLoop.induct) (auto simp: kick_def split: prod.splits option.splits)

lemma runLoop_left: "snd (snd (runLoop cs ms)) = (CtxDone \<in> set ms)"
  by (induction cs ms rule: runLoop.induct) (auto simp: kick_def split: prod.splits option.splits)

lemma authExternal_cases:
  "authExternal env s pa req =
     (if externalAuthenticationURL s = '''' then ([], None)
      else case externalAuthCall env s pa req of
             None \<Rightarrow> ([ExternalAuthCheck], None)
           | Some e \<Rightarrow>
               ([ExternalAuthCheck],
                Some (if BasicAuth req = None then pathErrAuthNotCritical
                      else pathErrAuthCritical (''external authentication failed: '' @ e))))"
  by (auto simp: authExternal_def split: option.splits)

lemma authExternal_checks: "subseq (fst (authExternal env s pa req)) [ExternalAuthCheck]"
  by (simp add: authExternal_cases split: option.splits)

lemma authIP_checks: "subseq (fst (authIP env pa req)) [IPCheck]"
  by (simp add: authIP_def split: option.splits)

lemma authCredentials_checks: "subseq (fst (authCredentials pa req)) [CredentialsCheck]"
  by (simp add: authCredentials_def split: option.splits prod.splits)

lemma authenticate_checks:
  "subseq (fst (authenticate env s pa req)) [ExternalAuthCheck, IPCheck, CredentialsCheck]"
proof -
  obtain c1 r1 where a1: "authExternal env s pa req = (c1, r1)" by (cases "authExternal env s pa req")
  obtain c2 r2 where a2: "authIP env pa req = (c2, r2)" by (cases "authIP env pa req")
  obtain c3 r3 where a3: "authCredentials pa req = (c3, r3)" by (cases "authCredentials pa req")
  have s1: "subseq c1 [ExternalAuthCheck]" using authExternal_checks [of env s pa req] a1 by simp
  have s2: "subseq c2 [IPCheck]" using authIP_checks [of env pa req] a2 by simp
  have s3: "subseq c3 [CredentialsCheck]" using authCredentials_checks [of pa req] a3 by simp
  have s12: "subseq (c1 @ c2) ([ExternalAuthCheck] @ [IPCheck])"
    using s1 s2 by (rule list_emb_append_mono)
  have s123: "subseq ((c1 @ c2) @ c3) (([ExternalAuthCheck] @ [IPCheck]) @ [CredentialsCheck])"
    using s12 s3 by (rule list_emb_append_mono)
  have "fst (authenticate env s pa req) = c1 \<or> fst (authenticate env s pa req) = c1 @ c2 \<or>
      fst (authenticate env s pa req) = c1 @ c2 @ c3"
    using a1 a2 a3 by (simp add: authenticate_def split: option.splits)
  moreover have "subseq c1 [ExternalAuthCheck, IPCheck, CredentialsCheck]"
    using subseq_append_right [OF s1, of "[IPCheck, CredentialsCheck]"] by simp
  moreover have "subseq (c1 @ c2) [ExternalAuthCheck, IPCheck, CredentialsCheck]"
    using subseq_append_right [OF s12, of "[CredentialsCheck]"] by simp
  moreover have "subseq (c1 @ c2 @ c3) [ExternalAuthCheck, IPCheck, CredentialsCheck]"
    using s123 by simp
  ultimately show ?thesis by auto
qed

lemma authenticate_external_fails:
  assumes "externalAuthenticationURL s \<noteq> ''''" "externalAuthCall env s pa req = Some e"
  shows "authenticate env s pa req =
     ([ExternalAuthCheck],
      Some (if BasicAuth req = None then pathErrAuthNotCritical
            else pathErrAuthCritical (''external authentication failed: '' @ e)))"
  using assms by (simp add: authenticate_def authExternal_cases)

lemma authenticate_external_passes:
  assumes "externalAuthenticationURL s = '''' \<or> externalAuthCall env s pa req = None"
  shows "snd (authenticate env s pa req) =
     (case snd (authIP env pa req) of
        Some e \<Rightarrow> Some e
      | None \<Rightarrow> snd (authCredentials pa req)) \<and>
     (snd (authIP env pa req) \<noteq> None \<longrightarrow> CredentialsCheck \<notin> set (fst (authenticate env s pa req)))"
proof -
  obtain c2 r2 where a2: "authIP env pa req = (c2, r2)" by (cases "authIP env pa req")
  obtain c3 r3 where a3: "authCredentials pa req = (c3, r3)" by (cases "authCredentials pa req")
  have c2: "CredentialsCheck \<notin> set c2"
    using a2 by (auto simp: authIP_def split: option.splits if_splits)
  show ?thesis
    using assms a2 a3 c2 by (auto simp: authenticate_def authExternal_cases split: option.splits)
qed

section \<open>Properties of the supervisor\<close>

subsection \<open>Concrete runs\<close>

text \<open>The example core is the state that a successful start-up reaches.\<close>

lemma exampleCore_started:
  "createResources noErr True (blankCore ''rtsp-simple-server.yml'' exampleConf True) =
     (exampleCore, Done)"
  by code_simp

subsection \<open>Closure of the restart decisions\<close>

text \<open>
  The parts of the closure that hold: a restart of the path manager or of metrics
  restarts every protocol server, and a restart of the path manager or of the RTSP,
  RTSPS, RTMP, HLS or WebRTC server restarts the API.
\<close>

lemma closePathManager_closes_servers:
  "closePathManager newConf c \<Longrightarrow>
     closeRTSPServer newConf c \<and> closeRTSPSServer newConf c \<and> closeRTMPServer newConf c \<and>
     closeRTMPSServer newConf c \<and> closeHLSServer newConf c \<and> closeWebRTCServer newConf c"
  by (cases newConf) (simp_all add: closeRTSPServer_def closeRTSPSServer_def closeRTMPServer_def
      closeRTMPSServer_def closeHLSServer_def closeWebRTCServer_def)

lemma closeMetrics_closes_registered:
  "closeMetrics newConf c \<Longrightarrow>
     closePathManager newConf c \<and>
     closeRTSPServer newConf c \<and> closeRTSPSServer newConf c \<and> closeRTMPServer newConf c \<and>
     closeRTMPSServer newConf c \<and> closeHLSServer newConf c \<and> closeWebRTCServer newConf c"
  by (cases newConf) (simp_all add: closePathManager_def closeRTSPServer_def closeRTSPSServer_def
      closeRTMPServer_def closeRTMPSServer_def closeHLSServer_def closeWebRTCServer_def)

lemma listed_servers_close_API:
  "closePathManager newConf c \<or> closeRTSPServer newConf c \<or> closeRTSPSServer newConf c \<or>
   closeRTMPServer newConf c \<or> closeHLSServer newConf c \<or> closeWebRTCServer newConf c \<Longrightarrow>
     closeAPI newConf c"
  by (cases newConf) (simp_all add: closeAPI_def)

text \<open>
  Claim C1 fails for the RTMPS server: \<open>closeAPI\<close> lists \<open>closeRTMPServer\<close> but not
  \<open>closeRTMPSServer\<close>. When only \<open>RTMPSAddress\<close> changes (\<open>rtmpsMovedConf\<close>), the RTMPS server must
  restart and the API must not; the reload of the example core closes RTMPS server 8 and
  builds RTMPS server 13, while the API, which was built with server 8, stays as object
  11 and is only sent \<open>confReload\<close>.
\<close>

theorem closeAPI_misses_closeRTMPSServer:
  "closeRTMPSServer (Some rtmpsMovedConf) exampleConf \<and>
   \<not> closeAPI (Some rtmpsMovedConf) exampleConf \<and>
   rtmpsServer (fst (reloadConf noErr rtmpsMovedConf False exampleCore)) = Some 13 \<and>
   api (fst (reloadConf noErr rtmpsMovedConf False exampleCore)) = Some 11 \<and>
   since exampleCore (fst (reloadConf noErr rtmpsMovedConf False exampleCore))
     = [APIConfReload 11 (Some rtmpsMovedConf), Closed RTMPSServerS 8, Created RTMPSServerS 13]"
  by code_simp

theorem closeAPI_misses_closeRTMPSServer_witness:
  "closeRTMPSServer (Some rtmpsMovedConf) exampleConf \<and>
   \<not> closeAPI (Some rtmpsMovedConf) exampleConf"
  using closeAPI_misses_closeRTMPSServer by blast

subsection \<open>Reloading the paths only\<close>

text \<open>
  Claim C2. A reload whose new configuration keeps \<open>RTSPAddress\<close>, \<open>ReadTimeout\<close>,
  \<open>WriteTimeout\<close>, \<open>ReadBufferCount\<close> and the metrics settings but changes the
  \<open>Paths\<close> map leaves the path manager alone: its pointer is the same after
  \<open>reloadConf\<close>, and the only event of the reload that concerns it is one call of
  \<open>confReload\<close> with the new \<open>Paths\<close> map (so it is neither closed nor created).
\<close>

theorem paths_only_reload:
  assumes pm: "pathManager p = Some pm"
    and same: "RTSPAddress n = RTSPAddress (conf p)" "ReadTimeout n = ReadTimeout (conf p)"
      "WriteTimeout n = WriteTimeout (conf p)" "ReadBufferCount n = ReadBufferCount (conf p)"
      "Metrics n = Metrics (conf p)" "MetricsAddress n = MetricsAddress (conf p)"
    and diff: "Paths n \<noteq> Paths (conf p)"
  shows "pathManager (fst (reloadConf newErr n calledByAPI p)) = Some pm \<and>
         filter (touches PathManagerS) (since p (fst (reloadConf newErr n calledByAPI p))) =
           [PathManagerConfReload pm (Paths n)]"
proof -
  let ?p1 = "emit (PathManagerConfReload pm (Paths n)) p"
  let ?r = "fst (reloadConf newErr n calledByAPI p)"
  have ncl: "\<not> closePathManager (Some n) (conf p)"
    using same by (simp add: closePathManager_def closeMetrics_def)
  have first: "reloadPaths (Some n) p = (?p1, Done)"
    using ncl diff pm by (simp add: reloadPaths_def)
  obtain p2 st2 where c: "closeResources (Some n) calledByAPI p = (p2, st2)"
    by (cases "closeResources (Some n) calledByAPI p")
  have "keeps PathManagerS ?p1 (fst (closeResources (Some n) calledByAPI p))"
    unfolding closeResources_def runSteps_Cons_Done [of "reloadPaths (Some n)" p, OF first]
  proof (rule stepKeepsD [where c = True])
    show "True \<longrightarrow> getSub PathManagerS ?p1 \<noteq> None"
      using pm by simp
  next
    show "stepKeeps True PathManagerS (runSteps
       [closeSub (Some n = None) ConfWatcherS,
        closeOrReloadAPI (Some n) calledByAPI (closeAPI (Some n) (conf p)),
        closeSub (closeRTSPSServer (Some n) (conf p)) RTSPSServerS,
        closeSub (closeRTSPServer (Some n) (conf p)) RTSPServerS,
        closeSub (closePathManager (Some n) (conf p)) PathManagerS,
        closeSub (closeWebRTCServer (Some n) (conf p)) WebRTCServerS,
        closeSub (closeHLSServer (Some n) (conf p)) HLSServerS,
        closeSub (closeRTMPSServer (Some n) (conf p)) RTMPSServerS,
        closeSub (closeRTMPServer (Some n) (conf p)) RTMPServerS,
        closeSub (closePPROF (Some n) (conf p)) PPROFS,
        closeSub (closeMetrics (Some n) (conf p)) MetricsS,
        closeExternalCmdPool (Some n),
        (\<lambda>p. if Some n = None then (emit RpiCameraCleanup p, Done) else (p, Done)),
        closeTheLogger (closeLogger (Some n) (conf p))])"
      by (rule stepKeeps_runSteps, simp del: runSteps.simps add: ncl)
         (intro conjI stepKeeps_intros; simp)
  qed
  then have k12: "keeps PathManagerS ?p1 p2"
    using c by simp
  have pm2: "pathManager p2 = Some pm"
    using k12 pm by (simp add: keeps_def)
  have k23: "keeps PathManagerS p2 ?r"
  proof (cases "st2 = Done")
    case True
    have "keeps PathManagerS p2 (fst (runSteps [(\<lambda>p. (p\<lparr>conf := n\<rparr>, Done)), createResources newErr False] p2))"
    proof (rule stepKeepsD [where c = True])
      show "stepKeeps True PathManagerS (runSteps [(\<lambda>p. (p\<lparr>conf := n\<rparr>, Done)), createResources newErr False])"
        by (rule stepKeeps_runSteps) (simp add: stepKeeps_setConf createResources_keeps_pathManager)
      show "True \<longrightarrow> getSub PathManagerS p2 \<noteq> None"
        using pm2 by simp
    qed
    moreover have "reloadConf newErr n calledByAPI p =
        runSteps [(\<lambda>p. (p\<lparr>conf := n\<rparr>, Done)), createResources newErr False] p2"
      unfolding reloadConf_def using c True
      by (intro runSteps_Cons_Done [of "closeResources (Some n) calledByAPI" p]) simp
    ultimately show ?thesis by simp
  next
    case False
    have "reloadConf newErr n calledByAPI p = (p2, st2)"
      unfolding reloadConf_def using c False
      by (intro runSteps_Cons_stop [of "closeResources (Some n) calledByAPI" p]) simp_all
    then show ?thesis by (simp add: keeps_refl)
  qed
  have k13: "keeps PathManagerS ?p1 ?r"
    using k12 k23 by (rule keeps_trans)
  then obtain es where es: "events ?r = events ?p1 @ es"
      "filter (touches PathManagerS) es = []"
    unfolding keeps_def by blast
  have "since p ?r = PathManagerConfReload pm (Paths n) # es"
    using es(1) by (simp add: since_def)
  moreover have "pathManager ?r = Some pm"
    using k13 pm by (simp add: keeps_def)
  ultimately show ?thesis using es(2) by simp
qed

theorem paths_only_reload_witness:
  "pathManager exampleCore = Some 4 \<and>
   Paths pathsChangedConf \<noteq> Paths (conf exampleCore) \<and>
   pathManager (fst (reloadConf noErr pathsChangedConf True exampleCore)) = Some 4 \<and>
   filter (touches PathManagerS)
     (since exampleCore (fst (reloadConf noErr pathsChangedConf True exampleCore))) =
     [PathManagerConfReload 4 (Paths pathsChangedConf)]"
proof -
  have pm: "pathManager exampleCore = Some 4"
    by (simp add: exampleCore_def)
  have same: "RTSPAddress pathsChangedConf = RTSPAddress (conf exampleCore)"
    "ReadTimeout pathsChangedConf = ReadTimeout (conf exampleCore)"
    "WriteTimeout pathsChangedConf = WriteTimeout (conf exampleCore)"
    "ReadBufferCount pathsChangedConf = ReadBufferCount (conf exampleCore)"
    "Metrics pathsChangedConf = Metrics (conf exampleCore)"
    "MetricsAddress pathsChangedConf = MetricsAddress (conf exampleCore)"
    by (simp_all add: exampleCore_def pathsChangedConf_def)
  have diff: "Paths pathsChangedConf \<noteq> Paths (conf exampleCore)"
    by code_simp
  show ?thesis
    using pm diff paths_only_reload [OF pm same diff, of noErr True] by simp
qed

subsection \<open>Tear-down order\<close>




subsection \<open>The API on reload\<close>

text \<open>
  Claim C10 as stated fails in its last part: when the new configuration disables the
  API (\<open>apiDisabledConf\<close>), the API must restart (\<open>closeAPI\<close> holds, since \<open>API\<close> changed), it is closed,
  and \<open>createResources\<close> does not build it again although it succeeds.
\<close>

theorem api_not_recreated_counterexample:
  "closeAPI (Some apiDisabledConf) (conf exampleCore) \<and>
   snd (reloadConf noErr apiDisabledConf False exampleCore) = Done \<and>
   api (fst (reloadConf noErr apiDisabledConf False exampleCore)) = None \<and>
   filter (touches APIS) (since exampleCore (fst (reloadConf noErr apiDisabledConf False exampleCore)))
     = [Closed APIS 11]"
  by code_simp

text \<open>
  Claim C10, as amended. In a running core (a path manager exists) with an API \<open>a\<close>:
  when the API need not restart, it stays the same object, and the reload sends it
  nothing if it was triggered through the API channel and exactly one
  \<open>confReload\<close> with the new configuration if it came from the file watcher; when the API
  must restart, it is closed, it is never sent \<open>confReload\<close>, the only other API
  event is the construction of the API that exists afterwards (a new object), and after
  a reload that succeeds an API exists exactly when the new configuration enables it.
\<close>

theorem api_reload_or_restart:
  assumes pm: "pathManager p \<noteq> None" and a: "api p = Some a" and old: "a < fresh p"
  shows "(\<not> closeAPI (Some n) (conf p) \<longrightarrow>
            api (fst (reloadConf newErr n calledByAPI p)) = Some a \<and>
            filter (touches APIS) (since p (fst (reloadConf newErr n calledByAPI p))) =
              (if calledByAPI then [] else [APIConfReload a (Some n)])) \<and>
         (closeAPI (Some n) (conf p) \<longrightarrow>
            filter (touches APIS) (since p (fst (reloadConf newErr n calledByAPI p))) =
              Closed APIS a #
                (case api (fst (reloadConf newErr n calledByAPI p)) of
                   None \<Rightarrow> [] | Some b \<Rightarrow> [Created APIS b]) \<and>
            api (fst (reloadConf newErr n calledByAPI p)) \<noteq> Some a \<and>
            (snd (reloadConf newErr n calledByAPI p) = Done \<longrightarrow>
               (api (fst (reloadConf newErr n calledByAPI p)) \<noteq> None) = API n))"
proof -
  let ?r = "reloadConf newErr n calledByAPI p"
  obtain p2 st2 where c: "closeResources (Some n) calledByAPI p = (p2, st2)"
    by (cases "closeResources (Some n) calledByAPI p")
  obtain es where es: "events p2 = events p @ es" "conf p2 = conf p" "fresh p2 = fresh p"
    and cl: "closeAPI (Some n) (conf p) \<Longrightarrow> api p2 = None \<and> filter (touches APIS) es = [Closed APIS a]"
    and ncl: "\<not> closeAPI (Some n) (conf p) \<Longrightarrow> api p2 = Some a \<and>
         filter (touches APIS) es = (if calledByAPI then [] else [APIConfReload a (Some n)])"
    using closeResources_API [OF pm a, of n calledByAPI] c by (auto split: if_splits)
  let ?p3 = "p2\<lparr>conf := n\<rparr>"
  have whole: "?r = (if st2 = Done then createResources newErr False ?p3 else (p2, st2))"
  proof (cases "st2 = Done")
    case True
    have "?r = runSteps [(\<lambda>p. (p\<lparr>conf := n\<rparr>, Done)), createResources newErr False] p2"
      unfolding reloadConf_def using c True
      by (intro runSteps_Cons_Done [of "closeResources (Some n) calledByAPI" p]) simp
    then show ?thesis using True
      by (cases "createResources newErr False ?p3"; cases "snd (createResources newErr False ?p3)") auto
  next
    case False
    have "?r = (p2, st2)"
      unfolding reloadConf_def using c False
      by (intro runSteps_Cons_stop [of "closeResources (Some n) calledByAPI" p]) simp_all
    then show ?thesis using False by simp
  qed
  show ?thesis
  proof (intro conjI impI)
    assume n: "\<not> closeAPI (Some n) (conf p)"
    have k: "keeps APIS p2 (fst ?r)"
    proof (cases "st2 = Done")
      case True
      have "stepKeeps True APIS (createResources newErr False)"
        unfolding createResources_def
        by (rule stepKeeps_runSteps, simp del: runSteps.simps)
           (intro conjI stepKeeps_if stepKeeps_ensure_present stepKeeps_intros; simp)
      then have "keeps APIS ?p3 (fst (createResources newErr False ?p3))"
        by (rule stepKeepsD) (simp add: ncl [OF n])
      moreover have "keeps APIS p2 ?p3"
        by (simp add: keeps_def)
      ultimately show ?thesis using whole True by (auto intro: keeps_trans)
    next
      case False
      then show ?thesis using whole by (simp add: keeps_refl)
    qed
    then obtain es' where es': "events (fst ?r) = events p2 @ es'" "filter (touches APIS) es' = []"
      and ar: "api (fst ?r) = api p2"
      by (auto simp: keeps_def)
    show "api (fst ?r) = Some a" using ar ncl [OF n] by simp
    have "since p (fst ?r) = es @ es'" using es' es by (simp add: since_def)
    then show "filter (touches APIS) (since p (fst ?r)) =
        (if calledByAPI then [] else [APIConfReload a (Some n)])"
      using es'(2) ncl [OF n] by simp
  next
    assume y: "closeAPI (Some n) (conf p)"
    have none: "api ?p3 = None" using cl [OF y] by simp
    obtain es' where es': "events (fst ?r) = events p2 @ es'"
      "filter (touches APIS) es' = (case api (fst ?r) of None \<Rightarrow> [] | Some b \<Rightarrow> [Created APIS b])"
      and fr: "\<forall>b. api (fst ?r) = Some b \<longrightarrow> fresh p \<le> b"
      and dn: "snd ?r = Done \<longrightarrow> (api (fst ?r) \<noteq> None) = API n"
    proof (cases "st2 = Done")
      case True
      from createResources_API [OF none, of newErr] obtain es' where
        "events (fst (createResources newErr False ?p3)) = events ?p3 @ es'"
        "filter (touches APIS) es' =
           (case api (fst (createResources newErr False ?p3)) of None \<Rightarrow> [] | Some b \<Rightarrow> [Created APIS b])"
        "\<forall>b. api (fst (createResources newErr False ?p3)) = Some b \<longrightarrow> fresh ?p3 \<le> b"
        "snd (createResources newErr False ?p3) = Done \<longrightarrow>
           (api (fst (createResources newErr False ?p3)) \<noteq> None) = API (conf ?p3)"
        by blast
      then show ?thesis using that [of es'] whole True es(3) by simp
    next
      case False
      then have "?r = (p2, st2)" using whole by simp
      then show ?thesis using that [of "[]"] False cl [OF y] by simp
    qed
    have s: "since p (fst ?r) = es @ es'" using es' es by (simp add: since_def)
    show "filter (touches APIS) (since p (fst ?r)) =
        Closed APIS a # (case api (fst ?r) of None \<Rightarrow> [] | Some b \<Rightarrow> [Created APIS b])"
      unfolding s using es'(2) cl [OF y] by simp
    show "api (fst ?r) \<noteq> Some a" using fr old by auto
    show "snd ?r = Done \<Longrightarrow> (api (fst ?r) \<noteq> None) = API n" using dn by simp
  qed
qed

theorem api_reload_or_restart_witness:
  "pathManager exampleCore \<noteq> None \<and> api exampleCore = Some 11 \<and> 11 < fresh exampleCore \<and>
   closeAPI (Some apiMovedConf) (conf exampleCore) \<and>
   snd (reloadConf noErr apiMovedConf True exampleCore) = Done \<and>
   API apiMovedConf \<and>
   filter (touches APIS) (since exampleCore (fst (reloadConf noErr apiMovedConf True exampleCore))) =
     Closed APIS 11 #
       (case api (fst (reloadConf noErr apiMovedConf True exampleCore)) of
          None \<Rightarrow> [] | Some b \<Rightarrow> [Created APIS b]) \<and>
   api (fst (reloadConf noErr apiMovedConf True exampleCore)) \<noteq> Some 11 \<and>
   api (fst (reloadConf noErr apiMovedConf True exampleCore)) \<noteq> None \<and>
   \<not> closeAPI (Some pathsChangedConf) (conf exampleCore) \<and>
   api (fst (reloadConf noErr pathsChangedConf False exampleCore)) = Some 11 \<and>
   filter (touches APIS) (since exampleCore (fst (reloadConf noErr pathsChangedConf False exampleCore))) =
     [APIConfReload 11 (Some pathsChangedConf)]"
proof -
  have pm: "pathManager exampleCore \<noteq> None" and a: "api exampleCore = Some 11"
    and old: "11 < fresh exampleCore"
    by (simp_all add: exampleCore_def)
  have must: "closeAPI (Some apiMovedConf) (conf exampleCore)"
    by code_simp
  have dn: "snd (reloadConf noErr apiMovedConf True exampleCore) = Done"
    by code_simp
  have en: "API apiMovedConf"
    by (simp add: apiMovedConf_def exampleConf_def)
  have keep: "\<not> closeAPI (Some pathsChangedConf) (conf exampleCore)"
    by code_simp
  show ?thesis
    using pm a old must dn en keep
      api_reload_or_restart [OF pm a old, of apiMovedConf noErr True]
      api_reload_or_restart [OF pm a old, of pathsChangedConf noErr False]
    by simp
qed

subsection \<open>Command line and missing configuration file\<close>



section \<open>Properties of the WebRTC server\<close>

subsection \<open>Authentication\<close>

text \<open>
  Claim C4. \<open>authenticate\<close> makes its checks in the order external authentication, IP
  allowlist, credentials. When an external authentication URL is set and the call fails,
  that is the only check made and the result is not-critical without Basic credentials
  and critical with them. Otherwise, a client IP outside a configured allowlist gives a
  critical error, before any look at the credentials. Otherwise, when a read user is
  configured, missing Basic credentials give not-critical and credentials that do not
  match give critical; in every remaining case the result is nil.
\<close>

theorem authenticate_outcomes:
  "subseq (fst (authenticate env s pa req)) [ExternalAuthCheck, IPCheck, CredentialsCheck] \<and>
   (externalAuthenticationURL s \<noteq> '''' \<and> externalAuthCall env s pa req = Some e \<longrightarrow>
      authenticate env s pa req =
        ([ExternalAuthCheck],
         Some (if BasicAuth req = None then pathErrAuthNotCritical
               else pathErrAuthCritical (''external authentication failed: '' @ e)))) \<and>
   ((externalAuthenticationURL s = '''' \<or> externalAuthCall env s pa req = None) \<and>
    ReadIPs (safeConf pa) = Some ips \<and>
    \<not> ipEqualOrInRange env (ParseIP env (ClientIP req)) ips \<longrightarrow>
      (\<exists>m. snd (authenticate env s pa req) = Some (pathErrAuthCritical m)) \<and>
      CredentialsCheck \<notin> set (fst (authenticate env s pa req))) \<and>
   ((externalAuthenticationURL s = '''' \<or> externalAuthCall env s pa req = None) \<and>
    (\<forall>allowed. ReadIPs (safeConf pa) = Some allowed \<longrightarrow>
       ipEqualOrInRange env (ParseIP env (ClientIP req)) allowed) \<longrightarrow>
      snd (authenticate env s pa req) =
        (if ReadUser (safeConf pa) = '''' then None
         else case BasicAuth req of
                None \<Rightarrow> Some pathErrAuthNotCritical
              | Some (user, pass) \<Rightarrow>
                  if user = ReadUser (safeConf pa) \<and> pass = ReadPass (safeConf pa) then None
                  else Some (pathErrAuthCritical ''invalid credentials'')))"
proof (intro conjI impI)
  show "subseq (fst (authenticate env s pa req)) [ExternalAuthCheck, IPCheck, CredentialsCheck]"
    by (rule authenticate_checks)
next
  assume "externalAuthenticationURL s \<noteq> '''' \<and> externalAuthCall env s pa req = Some e"
  then show "authenticate env s pa req =
        ([ExternalAuthCheck],
         Some (if BasicAuth req = None then pathErrAuthNotCritical
               else pathErrAuthCritical (''external authentication failed: '' @ e)))"
    by (simp add: authenticate_external_fails)
next
  assume h: "(externalAuthenticationURL s = '''' \<or> externalAuthCall env s pa req = None) \<and>
    ReadIPs (safeConf pa) = Some ips \<and>
    \<not> ipEqualOrInRange env (ParseIP env (ClientIP req)) ips"
  then have ip: "\<exists>m. snd (authIP env pa req) = Some (pathErrAuthCritical m)"
    by (simp add: authIP_def)
  from h have p: "snd (authenticate env s pa req) =
     (case snd (authIP env pa req) of Some e \<Rightarrow> Some e | None \<Rightarrow> snd (authCredentials pa req))"
    and q: "snd (authIP env pa req) \<noteq> None \<longrightarrow> CredentialsCheck \<notin> set (fst (authenticate env s pa req))"
    using authenticate_external_passes [of s env pa req] by simp_all
  show "\<exists>m. snd (authenticate env s pa req) = Some (pathErrAuthCritical m)"
    using ip p by auto
  show "CredentialsCheck \<notin> set (fst (authenticate env s pa req))"
    using ip q by auto
next
  assume h: "(externalAuthenticationURL s = '''' \<or> externalAuthCall env s pa req = None) \<and>
    (\<forall>allowed. ReadIPs (safeConf pa) = Some allowed \<longrightarrow>
       ipEqualOrInRange env (ParseIP env (ClientIP req)) allowed)"
  then have ip: "snd (authIP env pa req) = None"
    by (simp add: authIP_def split: option.splits)
  from h have p: "snd (authenticate env s pa req) =
     (case snd (authIP env pa req) of Some e \<Rightarrow> Some e | None \<Rightarrow> snd (authCredentials pa req))"
    using authenticate_external_passes [of s env pa req] by simp
  show "snd (authenticate env s pa req) =
        (if ReadUser (safeConf pa) = '''' then None
         else case BasicAuth req of
                None \<Rightarrow> Some pathErrAuthNotCritical
              | Some (user, pass) \<Rightarrow>
                  if user = ReadUser (safeConf pa) \<and> pass = ReadPass (safeConf pa) then None
                  else Some (pathErrAuthCritical ''invalid credentials''))"
    unfolding p ip by (auto simp: authCredentials_def split: option.splits)
qed

theorem authenticate_outcomes_witness:
  "authenticate exampleEnv externalAuthServer secretPath (exampleRequest None) =
     ([ExternalAuthCheck], Some pathErrAuthNotCritical) \<and>
   authenticate exampleEnv externalAuthServer secretPath (exampleRequest (Some (''u'', ''wrong''))) =
     ([ExternalAuthCheck],
      Some (pathErrAuthCritical ''external authentication failed: bad status code: 401'')) \<and>
   (\<exists>m. snd (authenticate exampleEnv exampleServer guardedPath (exampleRequest (Some (''u'', ''p'')))) =
      Some (pathErrAuthCritical m)) \<and>
   snd (authenticate exampleEnv exampleServer secretPath (exampleRequest None)) =
     Some pathErrAuthNotCritical \<and>
   snd (authenticate exampleEnv exampleServer secretPath (exampleRequest (Some (''u'', ''wrong'')))) =
     Some (pathErrAuthCritical ''invalid credentials'') \<and>
   snd (authenticate exampleEnv exampleServer secretPath (exampleRequest (Some (''u'', ''p'')))) = None"
proof -
  have url: "externalAuthenticationURL externalAuthServer \<noteq> ''''"
    "externalAuthenticationURL exampleServer = ''''"
    by (simp_all add: externalAuthServer_def exampleServer_def)
  have call: "externalAuthCall exampleEnv externalAuthServer secretPath (exampleRequest None) =
      Some ''bad status code: 401''"
    "externalAuthCall exampleEnv externalAuthServer secretPath (exampleRequest (Some (''u'', ''wrong''))) =
      Some ''bad status code: 401''"
    by (simp_all add: externalAuthCall_def exampleEnv_def exampleRequest_def)
  have ips: "ReadIPs (safeConf guardedPath) = Some [''10.0.0.0/8'']"
    "\<not> ipEqualOrInRange exampleEnv (ParseIP exampleEnv (ClientIP (exampleRequest (Some (''u'', ''p'')))))
        [''10.0.0.0/8'']"
    by (simp_all add: guardedPath_def exampleEnv_def exampleRequest_def)
  have noips: "\<forall>allowed. ReadIPs (safeConf secretPath) = Some allowed \<longrightarrow>
      ipEqualOrInRange exampleEnv (ParseIP exampleEnv (ClientIP req)) allowed" for req
    by (simp add: secretPath_def examplePath_def)
  have user: "ReadUser (safeConf secretPath) = ''u''" "ReadPass (safeConf secretPath) = ''p''"
    by (simp_all add: secretPath_def examplePath_def)
  have auth: "BasicAuth (exampleRequest a) = a" for a
    by (simp add: exampleRequest_def)
  show ?thesis
    using url call ips
      authenticate_outcomes [of exampleEnv externalAuthServer secretPath "exampleRequest None"
        "''bad status code: 401''" "[]"]
      authenticate_outcomes [of exampleEnv externalAuthServer secretPath
        "exampleRequest (Some (''u'', ''wrong''))" "''bad status code: 401''" "[]"]
      authenticate_outcomes [of exampleEnv exampleServer guardedPath
        "exampleRequest (Some (''u'', ''p''))" "''''" "[''10.0.0.0/8'']"]
      authenticate_outcomes [of exampleEnv exampleServer secretPath "exampleRequest None" "''''" "[]"]
      authenticate_outcomes [of exampleEnv exampleServer secretPath
        "exampleRequest (Some (''u'', ''wrong''))" "''''" "[]"]
      authenticate_outcomes [of exampleEnv exampleServer secretPath
        "exampleRequest (Some (''u'', ''p''))" "''''" "[]"]
    by (simp add: noips user auth)
qed

subsection \<open>Shutdown\<close>

text \<open>
  Claim C5. \<open>run\<close> returns exactly when its loop takes \<open>ctx.Done()\<close>, and its trace
  then ends with: cancel the context, shut down the HTTP server and close the listener,
  wait for the connections, and only then close the ICE UDP mux and the ICE TCP mux
  listeners (each when it exists), followed by the deferred calls; none of these steps
  occurs earlier in the trace, and none occurs while the loop is still running.
\<close>

theorem run_shutdown_order:
  "snd (run s ms) = (CtxDone \<in> set ms) \<and>
   (CtxDone \<in> set ms \<longrightarrow>
      (\<exists>pre. fst (run s ms) =
           pre @ [CtxCancel, HTTPShutdown, LnClose, WgWait] @
             (if udpMuxLn s then [UDPMuxLnClose] else []) @
             (if tcpMuxLn s then [TCPMuxLnClose] else []) @
             [RequestPoolClose, DoneClose] \<and>
           filter isShutdownStep pre = [])) \<and>
   (CtxDone \<notin> set ms \<longrightarrow> filter isShutdownStep (fst (run s ms)) = [])"
proof -
  obtain cs es left where r: "runLoop (conns s) ms = (cs, es, left)"
    by (cases "runLoop (conns s) ms")
  have l: "left = (CtxDone \<in> set ms)" using runLoop_left [of "conns s" ms] r by simp
  have n: "filter isShutdownStep es = []" using runLoop_no_shutdown [of "conns s" ms] r by simp
  show ?thesis
  proof (cases left)
    case True
    have "fst (run s ms) = (Serve (tlsConfig s) # es) @ [CtxCancel, HTTPShutdown, LnClose, WgWait] @
             (if udpMuxLn s then [UDPMuxLnClose] else []) @
             (if tcpMuxLn s then [TCPMuxLnClose] else []) @
             [RequestPoolClose, DoneClose]"
      using r True by (simp add: run_def shutdownSteps_def)
    moreover have "filter isShutdownStep (Serve (tlsConfig s) # es) = []" using n by simp
    ultimately have "\<exists>pre. fst (run s ms) =
           pre @ [CtxCancel, HTTPShutdown, LnClose, WgWait] @
             (if udpMuxLn s then [UDPMuxLnClose] else []) @
             (if tcpMuxLn s then [TCPMuxLnClose] else []) @
             [RequestPoolClose, DoneClose] \<and>
           filter isShutdownStep pre = []" by blast
    then show ?thesis using r True l by (simp add: run_def)
  next
    case False
    then show ?thesis using r l n by (simp add: run_def)
  qed
qed

theorem run_shutdown_order_witness:
  "CtxDone \<in> set [ConnNew (exampleConn 3 ''cccc''), ChAPIConnsKick ''aaaa'', CtxDone] \<and>
   snd (run exampleServer [ConnNew (exampleConn 3 ''cccc''), ChAPIConnsKick ''aaaa'', CtxDone]) \<and>
   (\<exists>pre. fst (run exampleServer [ConnNew (exampleConn 3 ''cccc''), ChAPIConnsKick ''aaaa'', CtxDone]) =
      pre @ [CtxCancel, HTTPShutdown, LnClose, WgWait, UDPMuxLnClose, TCPMuxLnClose,
             RequestPoolClose, DoneClose] \<and>
      filter isShutdownStep pre = [])"
  using run_shutdown_order [of exampleServer
      "[ConnNew (exampleConn 3 ''cccc''), ChAPIConnsKick ''aaaa'', CtxDone]"]
  by (simp add: exampleServer_def)

subsection \<open>Kicking a connection\<close>

text \<open>
  Claim C6. A kick request that reaches the loop returns \<open>not found\<close> exactly when no
  connection of the set has the given UUID; when one has, such a connection is removed
  from the set and closed, and the reply carries no error; when none has, the set is
  unchanged and nothing is closed.
\<close>

theorem apiConnsKick_delivered:
  "((snd (snd (apiConnsKick True reqId cs)) = Some ''not found'') = (\<forall>c \<in> set cs. uuid c \<noteq> reqId)) \<and>
   ((\<exists>c \<in> set cs. uuid c = reqId) \<longrightarrow>
      (\<exists>c \<in> set cs. uuid c = reqId \<and>
         apiConnsKick True reqId cs = (removeAll c cs, [ConnClose c, ReplyConnsKick None], None) \<and>
         set (removeAll c cs) = set cs - {c})) \<and>
   ((\<forall>c \<in> set cs. uuid c \<noteq> reqId) \<longrightarrow>
      apiConnsKick True reqId cs = (cs, [ReplyConnsKick (Some ''not found'')], Some ''not found''))"
proof (cases "findConn reqId cs")
  case None
  then have no: "\<forall>c \<in> set cs. uuid c \<noteq> reqId" by (simp add: findConn_None_iff)
  have "apiConnsKick True reqId cs = (cs, [ReplyConnsKick (Some ''not found'')], Some ''not found'')"
    using None by (simp add: apiConnsKick_def kick_def)
  then show ?thesis using no by simp
next
  case (Some c)
  then have c: "c \<in> set cs" "uuid c = reqId" by (auto dest: findConn_Some)
  have r: "apiConnsKick True reqId cs = (removeAll c cs, [ConnClose c, ReplyConnsKick None], None)"
    using Some by (simp add: apiConnsKick_def kick_def)
  show ?thesis using c r by auto
qed

theorem apiConnsKick_delivered_witness:
  "apiConnsKick True ''bbbb'' (conns exampleServer) =
     ([exampleConn 1 ''aaaa''], [ConnClose (exampleConn 2 ''bbbb''), ReplyConnsKick None], None) \<and>
   apiConnsKick True ''zzzz'' (conns exampleServer) =
     (conns exampleServer, [ReplyConnsKick (Some ''not found'')], Some ''not found'')"
proof -
  have none: "\<forall>c \<in> set (conns exampleServer). uuid c \<noteq> ''zzzz''"
    by (simp add: exampleServer_def exampleConn_def)
  have some: "\<exists>c \<in> set (conns exampleServer). uuid c = ''bbbb''"
    by (simp add: exampleServer_def exampleConn_def)
  from apiConnsKick_delivered [of "''zzzz''" "conns exampleServer"] none
  have a: "apiConnsKick True ''zzzz'' (conns exampleServer) =
     (conns exampleServer, [ReplyConnsKick (Some ''not found'')], Some ''not found'')"
    by blast
  from apiConnsKick_delivered [of "''bbbb''" "conns exampleServer"] some
  obtain c where c: "c \<in> set (conns exampleServer)" "uuid c = ''bbbb''"
    "apiConnsKick True ''bbbb'' (conns exampleServer) =
       (removeAll c (conns exampleServer), [ConnClose c, ReplyConnsKick None], None)"
    by blast
  from c(1,2) have "c = exampleConn 2 ''bbbb''"
    by (auto simp: exampleServer_def exampleConn_def)
  then have b: "apiConnsKick True ''bbbb'' (conns exampleServer) =
     ([exampleConn 1 ''aaaa''], [ConnClose (exampleConn 2 ''bbbb''), ReplyConnsKick None], None)"
    using c(3) by (simp add: exampleServer_def exampleConn_def)
  show ?thesis using a b by simp
qed

subsection \<open>Answering an authentication failure\<close>

text \<open>
  Claim C8. Whenever \<open>onRequest\<close> reaches \<open>authenticate\<close> (a GET request for a path
  that \<open>describe\<close> finds) and it fails, the response is 401 with the header
  \<open>WWW-Authenticate\<close> set to \<open>Basic realm=\<close> followed by \<open>rtsp-simple-server\<close>
  between double quotes (character 0x22) and no body, and a line is logged exactly when
  the failure is critical: one line at level \<open>Info\<close> with the message of a critical
  error, none for a not-critical one.
\<close>

theorem onRequest_auth_failure:
  assumes "Method req = ''GET''" and "URLPath req = slash # pa"
    and "pa \<noteq> ''''" and "pa \<noteq> ''favicon.ico''"
    and "splitPath env pa = (dir, fname)"
    and "fname = '''' \<longrightarrow> hasSuffix dir ''/''"
    and "describe env (trimSuffix dir ''/'') = Inr p"
    and "snd (authenticate env s p req) = Some err"
  shows "\<exists>r. onRequest env s req = Some r \<and>
           status r = Some 401 \<and>
           headerValue ''WWW-Authenticate'' r =
             Some (''Basic realm='' @ [CHR 0x22] @ ''rtsp-simple-server'' @ [CHR 0x22]) \<and>
           body r = None \<and> \<not> websocket r \<and>
           logged r =
             (case err of
                pathErrAuthCritical message \<Rightarrow>
                  [(Info, ''[WebRTC] authentication error: '' @ message)]
              | pathErrAuthNotCritical \<Rightarrow> [])"
  using assms
  by (cases err)
     (auto simp: onRequest_def Let_def setHeader_def writeHeader_def logLine_def headerValue_def
        challenge_def)

theorem onRequest_auth_failure_witness:
  "(\<exists>r. onRequest exampleEnv exampleServer (exampleRequest None) = Some r \<and>
        status r = Some 401 \<and>
        headerValue ''WWW-Authenticate'' r =
          Some (''Basic realm='' @ [CHR 0x22] @ ''rtsp-simple-server'' @ [CHR 0x22]) \<and>
        body r = None \<and> \<not> websocket r \<and> logged r = []) \<and>
   (\<exists>r. onRequest exampleEnv exampleServer (exampleRequest (Some (''u'', ''wrong''))) = Some r \<and>
        status r = Some 401 \<and>
        headerValue ''WWW-Authenticate'' r =
          Some (''Basic realm='' @ [CHR 0x22] @ ''rtsp-simple-server'' @ [CHR 0x22]) \<and>
        body r = None \<and> \<not> websocket r \<and>
        logged r = [(Info, ''[WebRTC] authentication error: invalid credentials'')])"
proof -
  have req: "Method (exampleRequest a) = ''GET''" "URLPath (exampleRequest a) = CHR ''/'' # ''secret/''"
    for a
    by (simp_all add: exampleRequest_def)
  have pa: "''secret/'' \<noteq> ''''" "''secret/'' \<noteq> ''favicon.ico''"
    by simp_all
  have sp: "splitPath exampleEnv ''secret/'' = (''secret/'', '''')"
    by (simp add: splitPath_def hasSuffix_def)
  have suf: "'''' = '''' \<longrightarrow> hasSuffix ''secret/'' ''/''"
    by (simp add: hasSuffix_def)
  have d: "describe exampleEnv (trimSuffix ''secret/'' ''/'') = Inr secretPath"
    by (simp add: exampleEnv_def trimSuffix_def hasSuffix_def)
  have a1: "snd (authenticate exampleEnv exampleServer secretPath (exampleRequest None)) =
      Some pathErrAuthNotCritical"
    by code_simp
  have a2: "snd (authenticate exampleEnv exampleServer secretPath (exampleRequest (Some (''u'', ''wrong'')))) =
      Some (pathErrAuthCritical ''invalid credentials'')"
    by code_simp
  show ?thesis
    using onRequest_auth_failure [OF req(1) req(2) pa sp suf d a1]
      onRequest_auth_failure [OF req(1) req(2) pa sp suf d a2]
    by simp
qed

end
